theory Spec2Isabelle
  imports Complex_Main "HOL-Library.Sublist" "HOL-Library.Multiset"
begin

section \<open>Data model of the store (class JobPortalState)\<close>

text \<open>
  The store is the JavaScript class \<^verbatim>\<open>JobPortalState\<close>. Its objects are modelled as
  records over the shape the application itself builds: a job has the fields of the job
  form (\<^verbatim>\<open>handleJobSubmission\<close>) and of \<^verbatim>\<open>getMockJobs\<close>, an application the fields
  of the object literal in \<^verbatim>\<open>applyForJob\<close>. ISO-8601 strings made by
  \<^verbatim>\<open>new Date().toISOString()\<close> are represented by their time value in milliseconds, so that
  \<^verbatim>\<open>new Date(a.created_at) - new Date(b.created_at)\<close> is a difference of integers.
  Salaries and time values are integers of the safe range, where the arithmetic of the
  code is exact. The clock (\<^verbatim>\<open>Date.now()\<close>) and \<^verbatim>\<open>Math.random()\<close> are inputs of the
  operations that read them. The listeners registered with \<^verbatim>\<open>addEventListener\<close> belong to
  the view layer; a state records the events \<^verbatim>\<open>emit\<close> has been called with, in order.
\<close>

type_synonym timestamp = int

record jobData =
  title :: string
  company :: string
  location :: string
  salary_from :: "int option"
  salary_to :: "int option"
  employment_type :: string
  job_category :: string
  description :: string
  qualifications :: "string list"
  contact :: string
  number_of_opening :: int
  is_remote_work :: bool
  application_deadline :: "timestamp option"

record job = jobData +
  job_id :: string
  created_at :: timestamp
  updated_at :: timestamp
  source :: string

text \<open>A patch is an object holding any subset of a job's keys (\<open>None\<close>: key absent).\<close>

record jobPatch =
  p_title :: "string option"
  p_company :: "string option"
  p_location :: "string option"
  p_salary_from :: "int option option"
  p_salary_to :: "int option option"
  p_employment_type :: "string option"
  p_job_category :: "string option"
  p_description :: "string option"
  p_qualifications :: "string list option"
  p_contact :: "string option"
  p_number_of_opening :: "int option"
  p_is_remote_work :: "bool option"
  p_application_deadline :: "timestamp option option"
  p_job_id :: "string option"
  p_created_at :: "timestamp option"
  p_updated_at :: "timestamp option"
  p_source :: "string option"

text \<open>
  The applicant details are the object the application form builds
  (\<^verbatim>\<open>handleApplicationSubmission\<close>: name, email, coverLetter), the keys the comment in
  \<^verbatim>\<open>applyForJob\<close> names. \<^verbatim>\<open>applyForJob\<close> spreads the object into the application after
  its own keys; the form's object carries none of those, so none is overridden.
\<close>

record applicantDetails =
  name :: string
  email :: string
  coverLetter :: "string option"

record application = applicantDetails +
  app_id :: string
  jobId :: string
  jobTitle :: string
  app_company :: string
  appliedAt :: timestamp
  status :: string

record filters =
  search :: string
  sort_flt :: string
  remoteOnly :: bool
  category :: string
  location_flt :: string

record filtersPatch =
  p_search :: "string option"
  p_sort :: "string option"
  p_remoteOnly :: "bool option"
  p_category :: "string option"
  p_location_flt :: "string option"

record paginationInfo =
  pi_currentPage :: int
  totalPages :: int
  totalItems :: int
  hasPrevPage :: bool
  hasNextPage :: bool

text \<open>The object returned by \<^verbatim>\<open>exportData\<close> and read by \<^verbatim>\<open>importData\<close>; a key may be absent.\<close>

record backup =
  b_userRole :: "string option"
  b_applications :: "application list option"
  b_userJobs :: "job list option"
  b_savedJobs :: "string list option"
  b_theme :: "string option"
  b_filters :: "filtersPatch option"
  b_exportedAt :: "timestamp option"

text \<open>The events of \<^verbatim>\<open>emit\<close>, with their payloads.\<close>

datatype event =
    RoleChanged string
  | ThemeChanged string
  | JobsUpdated "job list"
  | JobAdded job
  | JobUpdated "job option"
  | JobDeleted string
  | ApplicationSubmitted application
  | ApplicationUpdated application
  | JobSaved string
  | JobUnsaved string
  | FiltersChanged filters
  | PageChanged paginationInfo
  | DataCleared
  | DataImported backup

text \<open>
  \<^verbatim>\<open>localStorage\<close> under the six keys of \<^verbatim>\<open>storageKeys\<close>. The values are the parsed JSON
  documents; \<open>None\<close> is a missing key. \<^verbatim>\<open>saveToStorage\<close> is taken to succeed (a failing
  \<^verbatim>\<open>setItem\<close> is caught and leaves the old value).
\<close>

record storage =
  USER_ROLE :: "string option"
  APPLICATIONS :: "application list option"
  USER_JOBS :: "job list option"
  FILTERS :: "filters option"
  SAVED_JOBS :: "string list option"
  THEME :: "string option"

record state =
  userRole :: string
  applications :: "application list"
  userJobs :: "job list"
  savedJobs :: "string list"
  theme :: string
  filters :: filters
  currentPage :: int
  allJobs :: "job list"
  filteredJobs :: "job list"
  events :: "event list"
  store :: storage

text \<open>The errors thrown by the store: \<^verbatim>\<open>new Error('You have already applied for this job')\<close>,
  \<^verbatim>\<open>new Error('Job not found')\<close> and \<^verbatim>\<open>new Error('Invalid role. ...')\<close>.\<close>

datatype error = DuplicateApplication | JobNotFound | InvalidRole

section \<open>JavaScript primitives used by the store\<close>

text \<open>Numbers a sort comparator can return: a finite value, an infinity or NaN.\<close>

datatype jsnum = Num rat | PosInf | NegInf | NaN

fun js_minus :: "jsnum \<Rightarrow> jsnum \<Rightarrow> jsnum" where
  "js_minus (Num a) (Num b) = Num (a - b)"
| "js_minus NaN _ = NaN"
| "js_minus _ NaN = NaN"
| "js_minus PosInf PosInf = NaN"
| "js_minus NegInf NegInf = NaN"
| "js_minus PosInf _ = PosInf"
| "js_minus NegInf _ = NegInf"
| "js_minus (Num a) PosInf = NegInf"
| "js_minus (Num a) NegInf = PosInf"

text \<open>\<^verbatim>\<open>v > 0\<close>, after \<^verbatim>\<open>Array.prototype.sort\<close> has replaced a NaN result by \<open>+0\<close>.\<close>

fun js_positive :: "jsnum \<Rightarrow> bool" where
  "js_positive (Num r) = (0 < r)"
| "js_positive PosInf = True"
| "js_positive NegInf = False"
| "js_positive NaN = False"

text \<open>
  \<^verbatim>\<open>Array.prototype.sort(comparefn)\<close> is stable; it is modelled by the stable insertion
  sort, in which an element passes only those elements that the comparator puts strictly
  before it. For a comparator that orders consistently, as the four of \<^verbatim>\<open>applyFilters\<close>
  do, every stable sort returns this list.
\<close>

fun sort_insert :: "('a \<Rightarrow> 'a \<Rightarrow> jsnum) \<Rightarrow> 'a \<Rightarrow> 'a list \<Rightarrow> 'a list" where
  "sort_insert cmp x [] = [x]"
| "sort_insert cmp x (y # ys) =
     (if js_positive (cmp x y) then y # sort_insert cmp x ys else x # y # ys)"

fun array_sort :: "('a \<Rightarrow> 'a \<Rightarrow> jsnum) \<Rightarrow> 'a list \<Rightarrow> 'a list" where
  "array_sort cmp [] = []"
| "array_sort cmp (x # xs) = sort_insert cmp x (array_sort cmp xs)"

text \<open>\<^verbatim>\<open>findIndex\<close> and \<^verbatim>\<open>indexOf\<close>: the first position, or \<open>-1\<close>.\<close>

fun findIndex :: "('a \<Rightarrow> bool) \<Rightarrow> 'a list \<Rightarrow> int" where
  "findIndex P [] = -1"
| "findIndex P (x # xs) =
     (if P x then 0 else (let i = findIndex P xs in if i = -1 then -1 else i + 1))"

definition indexOf :: "'a list \<Rightarrow> 'a \<Rightarrow> int" where
  "indexOf xs x = findIndex (\<lambda>y. y = x) xs"

text \<open>\<^verbatim>\<open>xs.splice(i, 1)\<close> for an index within the array.\<close>

definition splice1 :: "int \<Rightarrow> 'a list \<Rightarrow> 'a list" where
  "splice1 i xs = take (nat i) xs @ drop (nat i + 1) xs"

text \<open>\<^verbatim>\<open>xs.slice(start, end)\<close>, with the negative indices counted from the end.\<close>

definition slice :: "'a list \<Rightarrow> int \<Rightarrow> int \<Rightarrow> 'a list" where
  "slice xs start end' =
     (let len = int (length xs);
          k = (if start < 0 then max (len + start) 0 else min start len);
          final = (if end' < 0 then max (len + end') 0 else min end' len)
      in take (nat (max (final - k) 0)) (drop (nat k) xs))"

text \<open>\<^verbatim>\<open>toLowerCase\<close> on the ASCII letters; a string is a list of bytes.\<close>

definition lower_char :: "char \<Rightarrow> char" where
  "lower_char c =
     (let n = of_char c :: nat in if 65 \<le> n \<and> n \<le> 90 then char_of (n + 32) else c)"

definition toLowerCase :: "string \<Rightarrow> string" where
  "toLowerCase s = map lower_char s"

text \<open>\<^verbatim>\<open>s.includes(t)\<close>: \<open>t\<close> occurs in \<open>s\<close> as a contiguous substring.\<close>

definition str_includes :: "string \<Rightarrow> string \<Rightarrow> bool" where
  "str_includes s t = sublist t s"

text \<open>The decimal numeral of an integer, as \<^verbatim>\<open>String(n)\<close> and template literals print it.\<close>

fun dec_nat :: "nat \<Rightarrow> string" where
  "dec_nat n =
     (if n < 10 then [char_of (48 + n)] else dec_nat (n div 10) @ [char_of (48 + n mod 10)])"

declare dec_nat.simps [simp del]

definition dec_int :: "int \<Rightarrow> string" where
  "dec_int i = (if i < 0 then CHR ''-'' # dec_nat (nat (- i)) else dec_nat (nat i))"

section \<open>The store's operations\<close>

definition itemsPerPage :: int where
  "itemsPerPage = 9"

definition defaultFilters :: filters where
  "defaultFilters =
     \<lparr>search = [], sort_flt = ''newest'', remoteOnly = False, category = [], location_flt = []\<rparr>"

definition emit :: "event \<Rightarrow> state \<Rightarrow> state" where
  "emit e s = s\<lparr>events := events s @ [e]\<rparr>"

text \<open>\<^verbatim>\<open>{ ...f, ...p }\<close> for a filter object \<open>f\<close> and a partial one \<open>p\<close>.\<close>

definition mergeFilters :: "filters \<Rightarrow> filtersPatch \<Rightarrow> filters" where
  "mergeFilters f p =
     \<lparr>search = (case p_search p of Some v \<Rightarrow> v | None \<Rightarrow> search f),
      sort_flt = (case p_sort p of Some v \<Rightarrow> v | None \<Rightarrow> sort_flt f),
      remoteOnly = (case p_remoteOnly p of Some v \<Rightarrow> v | None \<Rightarrow> remoteOnly f),
      category = (case p_category p of Some v \<Rightarrow> v | None \<Rightarrow> category f),
      location_flt = (case p_location_flt p of Some v \<Rightarrow> v | None \<Rightarrow> location_flt f)\<rparr>"

text \<open>\<^verbatim>\<open>getFromStorage(key) || dflt\<close> for a string: the empty string is falsy.\<close>

definition stored_or :: "string option \<Rightarrow> string \<Rightarrow> string" where
  "stored_or v dflt = (case v of None \<Rightarrow> dflt | Some r \<Rightarrow> if r = [] then dflt else r)"

text \<open>\<^verbatim>\<open>init()\<close>, from the storage; the registered listeners (here the event log) stay.\<close>

definition init :: "storage \<Rightarrow> event list \<Rightarrow> state" where
  "init sto evs =
     \<lparr>userRole = stored_or (USER_ROLE sto) ''job_seeker'',
      applications = (case APPLICATIONS sto of None \<Rightarrow> [] | Some a \<Rightarrow> a),
      userJobs = (case USER_JOBS sto of None \<Rightarrow> [] | Some a \<Rightarrow> a),
      savedJobs = (case SAVED_JOBS sto of None \<Rightarrow> [] | Some a \<Rightarrow> a),
      theme = stored_or (THEME sto) ''light'',
      filters = (case FILTERS sto of None \<Rightarrow> defaultFilters | Some f \<Rightarrow> f),
      currentPage = 1,
      allJobs = [],
      filteredJobs = [],
      events = evs,
      store = sto\<rparr>"

definition emptyStorage :: storage where
  "emptyStorage =
     \<lparr>USER_ROLE = None, APPLICATIONS = None, USER_JOBS = None, FILTERS = None,
      SAVED_JOBS = None, THEME = None\<rparr>"

text \<open>\<^verbatim>\<open>new JobPortalState()\<close>: no listener is registered yet.\<close>

definition constructor :: "storage \<Rightarrow> state" where
  "constructor sto = init sto []"

definition setUserRole :: "string \<Rightarrow> state \<Rightarrow> error + state" where
  "setUserRole role s =
     (if role \<noteq> ''job_seeker'' \<and> role \<noteq> ''recruiter'' then Inl InvalidRole
      else Inr (emit (RoleChanged role)
                 (s\<lparr>userRole := role, store := (store s)\<lparr>USER_ROLE := Some role\<rparr>\<rparr>)))"

definition setTheme :: "string \<Rightarrow> state \<Rightarrow> state" where
  "setTheme th s =
     (if th \<noteq> ''light'' \<and> th \<noteq> ''dark'' then s
      else emit (ThemeChanged th) (s\<lparr>theme := th, store := (store s)\<lparr>THEME := Some th\<rparr>\<rparr>))"

subsection \<open>Filtering and sorting\<close>

text \<open>The truthiness of a salary bound: \<^verbatim>\<open>null\<close> and \<open>0\<close> are falsy.\<close>

definition truthy_salary :: "int option \<Rightarrow> bool" where
  "truthy_salary v = (case v of None \<Rightarrow> False | Some n \<Rightarrow> n \<noteq> 0)"

text \<open>\<^verbatim>\<open>a.salary_from && a.salary_to ? (a.salary_from + a.salary_to) / 2 : dflt\<close>\<close>

definition avgSalary :: "jsnum \<Rightarrow> job \<Rightarrow> jsnum" where
  "avgSalary dflt a =
     (if truthy_salary (salary_from a) \<and> truthy_salary (salary_to a)
      then Num (of_int (the (salary_from a) + the (salary_to a)) / 2)
      else dflt)"

text \<open>The comparator of \<^verbatim>\<open>applyFilters\<close>: a \<^verbatim>\<open>switch\<close> on \<^verbatim>\<open>this.filters.sort\<close>.\<close>

definition sortComparator :: "string \<Rightarrow> job \<Rightarrow> job \<Rightarrow> jsnum" where
  "sortComparator srt a b =
     (if srt = ''oldest'' then Num (of_int (created_at a - created_at b))
      else if srt = ''salary_high'' then js_minus (avgSalary (Num 0) b) (avgSalary (Num 0) a)
      else if srt = ''salary_low'' then js_minus (avgSalary PosInf a) (avgSalary PosInf b)
      else Num (of_int (created_at b - created_at a)))"

definition searchMatches :: "string \<Rightarrow> job \<Rightarrow> bool" where
  "searchMatches searchTerm j =
     (str_includes (toLowerCase (title j)) searchTerm \<or>
      str_includes (toLowerCase (company j)) searchTerm \<or>
      str_includes (toLowerCase (description j)) searchTerm)"

definition applyFilters :: "state \<Rightarrow> state" where
  "applyFilters s =
     (let f = filters s;
          filtered = allJobs s;
          filtered = (if search f \<noteq> []
                      then filter (searchMatches (toLowerCase (search f))) filtered
                      else filtered);
          filtered = (if remoteOnly f then filter is_remote_work filtered else filtered);
          filtered = (if category f \<noteq> []
                      then filter (\<lambda>j. job_category j = category f) filtered
                      else filtered);
          filtered = (if location_flt f \<noteq> []
                      then filter (\<lambda>j. str_includes (toLowerCase (location j))
                                              (toLowerCase (location_flt f))) filtered
                      else filtered)
      in s\<lparr>filteredJobs := array_sort (sortComparator (sort_flt f)) filtered\<rparr>)"

definition setAllJobs :: "job list \<Rightarrow> state \<Rightarrow> state" where
  "setAllJobs jobs s =
     (let s1 = applyFilters (s\<lparr>allJobs := jobs\<rparr>) in emit (JobsUpdated (filteredJobs s1)) s1)"

definition getAllJobs :: "state \<Rightarrow> job list" where
  "getAllJobs s = allJobs s"

definition getFilteredJobs :: "state \<Rightarrow> job list" where
  "getFilteredJobs s = filteredJobs s"

definition setFilters :: "filtersPatch \<Rightarrow> state \<Rightarrow> state" where
  "setFilters newFilters s =
     (let f = mergeFilters (filters s) newFilters;
          s1 = applyFilters
                 (s\<lparr>currentPage := 1, filters := f, store := (store s)\<lparr>FILTERS := Some f\<rparr>\<rparr>)
      in emit (JobsUpdated (filteredJobs s1)) (emit (FiltersChanged f) s1))"

definition resetFilters :: "state \<Rightarrow> state" where
  "resetFilters s =
     (let s1 = applyFilters
                 (s\<lparr>currentPage := 1, filters := defaultFilters,
                    store := (store s)\<lparr>FILTERS := Some defaultFilters\<rparr>\<rparr>)
      in emit (JobsUpdated (filteredJobs s1)) (emit (FiltersChanged defaultFilters) s1))"

subsection \<open>Saved jobs\<close>

definition isJobSaved :: "string \<Rightarrow> state \<Rightarrow> bool" where
  "isJobSaved jid s = (jid \<in> set (savedJobs s))"

definition saveJob :: "string \<Rightarrow> state \<Rightarrow> state" where
  "saveJob jid s =
     (if \<not> isJobSaved jid s
      then (let saved = savedJobs s @ [jid]
            in emit (JobSaved jid)
                 (s\<lparr>savedJobs := saved, store := (store s)\<lparr>SAVED_JOBS := Some saved\<rparr>\<rparr>))
      else s)"

definition unsaveJob :: "string \<Rightarrow> state \<Rightarrow> state" where
  "unsaveJob jid s =
     (let index = indexOf (savedJobs s) jid
      in if index > -1
         then (let saved = splice1 index (savedJobs s)
               in emit (JobUnsaved jid)
                    (s\<lparr>savedJobs := saved, store := (store s)\<lparr>SAVED_JOBS := Some saved\<rparr>\<rparr>))
         else s)"

subsection \<open>Recruiter operations on jobs\<close>

text \<open>
  \<^verbatim>\<open>addJob(jobData)\<close>: the new object is pushed onto both arrays. \<open>now\<close> is the clock and
  \<open>rnd\<close> the text \<^verbatim>\<open>Math.random().toString(36).substr(2, 9)\<close>; the clock reads of one call
  are taken to give the same instant.
\<close>

definition addJob :: "timestamp \<Rightarrow> string \<Rightarrow> jobData \<Rightarrow> state \<Rightarrow> job \<times> state" where
  "addJob now rnd d s =
     (let j = \<lparr>title = title d, company = company d, location = location d,
               salary_from = salary_from d, salary_to = salary_to d,
               employment_type = employment_type d, job_category = job_category d,
               description = description d, qualifications = qualifications d,
               contact = contact d, number_of_opening = number_of_opening d,
               is_remote_work = is_remote_work d,
               application_deadline = application_deadline d,
               job_id = ''user_job_'' @ dec_int now @ ''_'' @ rnd,
               created_at = now, updated_at = now, source = ''user''\<rparr>;
          uj = userJobs s @ [j];
          s1 = applyFilters
                 (s\<lparr>userJobs := uj, allJobs := allJobs s @ [j],
                    store := (store s)\<lparr>USER_JOBS := Some uj\<rparr>\<rparr>)
      in (j, emit (JobsUpdated (filteredJobs s1)) (emit (JobAdded j) s1)))"

text \<open>\<^verbatim>\<open>{ ...old, ...updatedData, updated_at: new Date().toISOString() }\<close>\<close>

definition mergeJob :: "job \<Rightarrow> jobPatch \<Rightarrow> timestamp \<Rightarrow> job" where
  "mergeJob old p now =
     \<lparr>title = (case p_title p of Some v \<Rightarrow> v | None \<Rightarrow> title old),
      company = (case p_company p of Some v \<Rightarrow> v | None \<Rightarrow> company old),
      location = (case p_location p of Some v \<Rightarrow> v | None \<Rightarrow> location old),
      salary_from = (case p_salary_from p of Some v \<Rightarrow> v | None \<Rightarrow> salary_from old),
      salary_to = (case p_salary_to p of Some v \<Rightarrow> v | None \<Rightarrow> salary_to old),
      employment_type =
        (case p_employment_type p of Some v \<Rightarrow> v | None \<Rightarrow> employment_type old),
      job_category = (case p_job_category p of Some v \<Rightarrow> v | None \<Rightarrow> job_category old),
      description = (case p_description p of Some v \<Rightarrow> v | None \<Rightarrow> description old),
      qualifications =
        (case p_qualifications p of Some v \<Rightarrow> v | None \<Rightarrow> qualifications old),
      contact = (case p_contact p of Some v \<Rightarrow> v | None \<Rightarrow> contact old),
      number_of_opening =
        (case p_number_of_opening p of Some v \<Rightarrow> v | None \<Rightarrow> number_of_opening old),
      is_remote_work =
        (case p_is_remote_work p of Some v \<Rightarrow> v | None \<Rightarrow> is_remote_work old),
      application_deadline =
        (case p_application_deadline p of Some v \<Rightarrow> v | None \<Rightarrow> application_deadline old),
      job_id = (case p_job_id p of Some v \<Rightarrow> v | None \<Rightarrow> job_id old),
      created_at = (case p_created_at p of Some v \<Rightarrow> v | None \<Rightarrow> created_at old),
      updated_at = now,
      source = (case p_source p of Some v \<Rightarrow> v | None \<Rightarrow> source old)\<rparr>"

text \<open>
  \<^verbatim>\<open>updateJob(jobId, updatedData)\<close>. \<open>updatedJob\<close> is \<^verbatim>\<open>null\<close> (\<open>None\<close>) until one of the
  two branches sets it; the branch for \<^verbatim>\<open>allJobs\<close> stores the object of the first branch
  when there is one (\<^verbatim>\<open>updatedJob || {...}\<close>).
\<close>

definition updateJob :: "timestamp \<Rightarrow> string \<Rightarrow> jobPatch \<Rightarrow> state \<Rightarrow> state" where
  "updateJob now jid updatedData s =
     (let updatedJob = None;
          userJobIndex = findIndex (\<lambda>j. job_id j = jid) (userJobs s);
          (updatedJob, s1) =
            (if userJobIndex \<noteq> -1
             then (let u = mergeJob (userJobs s ! nat userJobIndex) updatedData now;
                       uj = (userJobs s)[nat userJobIndex := u]
                   in (Some u, s\<lparr>userJobs := uj, store := (store s)\<lparr>USER_JOBS := Some uj\<rparr>\<rparr>))
             else (updatedJob, s));
          allJobIndex = findIndex (\<lambda>j. job_id j = jid) (allJobs s1);
          (updatedJob, s2) =
            (if allJobIndex \<noteq> -1
             then (let a = (case updatedJob of
                              Some u \<Rightarrow> u
                            | None \<Rightarrow> mergeJob (allJobs s1 ! nat allJobIndex) updatedData now)
                   in (Some a, s1\<lparr>allJobs := (allJobs s1)[nat allJobIndex := a]\<rparr>))
             else (updatedJob, s1));
          s3 = applyFilters s2
      in emit (JobsUpdated (filteredJobs s3)) (emit (JobUpdated updatedJob) s3))"

definition deleteJob :: "string \<Rightarrow> state \<Rightarrow> state" where
  "deleteJob jid s =
     (let uj = filter (\<lambda>j. job_id j \<noteq> jid) (userJobs s);
          s1 = applyFilters
                 (s\<lparr>userJobs := uj, store := (store s)\<lparr>USER_JOBS := Some uj\<rparr>,
                    allJobs := filter (\<lambda>j. job_id j \<noteq> jid) (allJobs s)\<rparr>)
      in emit (JobsUpdated (filteredJobs s1)) (emit (JobDeleted jid) s1))"

definition getUserJobs :: "state \<Rightarrow> job list" where
  "getUserJobs s = userJobs s"

definition getJobById :: "string \<Rightarrow> state \<Rightarrow> job option" where
  "getJobById jid s = find (\<lambda>j. job_id j = jid) (allJobs s)"

subsection \<open>Applications\<close>

definition hasApplied :: "string \<Rightarrow> state \<Rightarrow> bool" where
  "hasApplied jid s = list_ex (\<lambda>app. jobId app = jid) (applications s)"

text \<open>
  \<^verbatim>\<open>applyForJob(jobId, applicantDetails)\<close>. A \<^verbatim>\<open>throw\<close> leaves the method before anything is
  written, so the state returned with an error is the state of the call.
\<close>

definition applyForJob ::
  "timestamp \<Rightarrow> string \<Rightarrow> string \<Rightarrow> applicantDetails \<Rightarrow> state \<Rightarrow> (error + application) \<times> state"
where
  "applyForJob now rnd jid d s =
     (if hasApplied jid s then (Inl DuplicateApplication, s)
      else case find (\<lambda>j. job_id j = jid) (allJobs s) of
        None \<Rightarrow> (Inl JobNotFound, s)
      | Some j \<Rightarrow>
          (let app = \<lparr>name = name d, email = email d, coverLetter = coverLetter d,
                      app_id = ''app_'' @ dec_int now @ ''_'' @ rnd,
                      jobId = jid,
                      jobTitle = title j,
                      app_company = company j,
                      appliedAt = now,
                      status = ''pending''\<rparr>;
               apps = applications s @ [app]
           in (Inr app,
               emit (ApplicationSubmitted app)
                 (s\<lparr>applications := apps, store := (store s)\<lparr>APPLICATIONS := Some apps\<rparr>\<rparr>))))"

definition getApplications :: "state \<Rightarrow> application list" where
  "getApplications s = applications s"

definition getApplicationsForJob :: "string \<Rightarrow> state \<Rightarrow> application list" where
  "getApplicationsForJob jid s = filter (\<lambda>app. jobId app = jid) (applications s)"

definition updateApplicationStatus :: "string \<Rightarrow> string \<Rightarrow> state \<Rightarrow> state" where
  "updateApplicationStatus aid st s =
     (let appIndex = findIndex (\<lambda>app. app_id app = aid) (applications s)
      in if appIndex \<noteq> -1
         then (let app = (applications s ! nat appIndex)\<lparr>status := st\<rparr>;
                   apps = (applications s)[nat appIndex := app]
               in emit (ApplicationUpdated app)
                    (s\<lparr>applications := apps, store := (store s)\<lparr>APPLICATIONS := Some apps\<rparr>\<rparr>))
         else s)"

subsection \<open>Pagination\<close>

text \<open>\<^verbatim>\<open>Math.ceil(totalItems / this.itemsPerPage) || 1\<close>: a result of \<open>0\<close> is falsy.\<close>

definition getPaginationInfo :: "state \<Rightarrow> paginationInfo" where
  "getPaginationInfo s =
     (let items = int (length (filteredJobs s));
          c = \<lceil>(of_int items :: rat) / of_int itemsPerPage\<rceil>;
          pages = (if c = 0 then 1 else c)
      in \<lparr>pi_currentPage = currentPage s,
          totalPages = pages,
          totalItems = items,
          hasPrevPage = (currentPage s > 1),
          hasNextPage = (currentPage s < pages)\<rparr>)"

definition setPage :: "int \<Rightarrow> state \<Rightarrow> state" where
  "setPage page s =
     (let info = getPaginationInfo s;
          newPage = max 1 (min page (totalPages info))
      in if currentPage s \<noteq> newPage
         then (let s1 = s\<lparr>currentPage := newPage\<rparr> in emit (PageChanged (getPaginationInfo s1)) s1)
         else s)"

definition getPaginatedJobs :: "state \<Rightarrow> job list" where
  "getPaginatedJobs s =
     (let start = (currentPage s - 1) * itemsPerPage;
          end' = start + itemsPerPage
      in slice (filteredJobs s) start end')"

subsection \<open>Clearing, export and import\<close>

definition clearAllData :: "state \<Rightarrow> state" where
  "clearAllData s = emit DataCleared (init emptyStorage (events s))"

definition exportData :: "timestamp \<Rightarrow> state \<Rightarrow> backup" where
  "exportData now s =
     \<lparr>b_userRole = Some (userRole s),
      b_applications = Some (applications s),
      b_userJobs = Some (userJobs s),
      b_savedJobs = Some (savedJobs s),
      b_theme = Some (theme s),
      b_filters = Some \<lparr>p_search = Some (search (filters s)),
                        p_sort = Some (sort_flt (filters s)),
                        p_remoteOnly = Some (remoteOnly (filters s)),
                        p_category = Some (category (filters s)),
                        p_location_flt = Some (location_flt (filters s))\<rparr>,
      b_exportedAt = Some now\<rparr>"

text \<open>
  \<^verbatim>\<open>importData(data)\<close>: each key is applied when its value is truthy (a string when it is
  not empty, an array or an object always). Of the calls in the \<^verbatim>\<open>try\<close> block only
  \<^verbatim>\<open>setUserRole\<close> throws; it is the first statement, so the \<^verbatim>\<open>catch\<close> returns
  \<^verbatim>\<open>false\<close> on the state of the call.
\<close>

definition importData :: "backup \<Rightarrow> state \<Rightarrow> bool \<times> state" where
  "importData data s =
     (case (case b_userRole data of
              Some r \<Rightarrow> if r \<noteq> [] then setUserRole r s else Inr s
            | None \<Rightarrow> Inr s) of
        Inl e \<Rightarrow> (False, s)
      | Inr s1 \<Rightarrow>
          (let s2 = (case b_theme data of
                       Some t \<Rightarrow> if t \<noteq> [] then setTheme t s1 else s1
                     | None \<Rightarrow> s1);
               s3 = (case b_applications data of
                       Some a \<Rightarrow> s2\<lparr>applications := a, store := (store s2)\<lparr>APPLICATIONS := Some a\<rparr>\<rparr>
                     | None \<Rightarrow> s2);
               s4 = (case b_userJobs data of
                       Some a \<Rightarrow> s3\<lparr>userJobs := a, store := (store s3)\<lparr>USER_JOBS := Some a\<rparr>\<rparr>
                     | None \<Rightarrow> s3);
               s5 = (case b_savedJobs data of
                       Some a \<Rightarrow> s4\<lparr>savedJobs := a, store := (store s4)\<lparr>SAVED_JOBS := Some a\<rparr>\<rparr>
                     | None \<Rightarrow> s4);
               s6 = (case b_filters data of
                       Some p \<Rightarrow> (let f = mergeFilters defaultFilters p
                                  in s5\<lparr>filters := f, store := (store s5)\<lparr>FILTERS := Some f\<rparr>\<rparr>)
                     | None \<Rightarrow> s5)
           in (True, emit (DataImported data) s6)))"

text \<open>
  The states a browser profile can reach: the first session starts on an empty storage,
  a later session (a reload) on the storage the store has written, and every public
  mutation method may be called with any argument.
\<close>

inductive reachable :: "state \<Rightarrow> bool" where
  r_new: "reachable (constructor emptyStorage)"
| r_reload: "reachable s \<Longrightarrow> reachable (constructor (store s))"
| r_setUserRole: "reachable s \<Longrightarrow> setUserRole role s = Inr s' \<Longrightarrow> reachable s'"
| r_setTheme: "reachable s \<Longrightarrow> reachable (setTheme th s)"
| r_setAllJobs: "reachable s \<Longrightarrow> reachable (setAllJobs jobs s)"
| r_addJob: "reachable s \<Longrightarrow> reachable (snd (addJob now rnd d s))"
| r_updateJob: "reachable s \<Longrightarrow> reachable (updateJob now jid p s)"
| r_deleteJob: "reachable s \<Longrightarrow> reachable (deleteJob jid s)"
| r_applyForJob: "reachable s \<Longrightarrow> reachable (snd (applyForJob now rnd jid ad s))"
| r_updateApplicationStatus: "reachable s \<Longrightarrow> reachable (updateApplicationStatus aid st s)"
| r_saveJob: "reachable s \<Longrightarrow> reachable (saveJob jid s)"
| r_unsaveJob: "reachable s \<Longrightarrow> reachable (unsaveJob jid s)"
| r_setPage: "reachable s \<Longrightarrow> reachable (setPage page s)"
| r_setFilters: "reachable s \<Longrightarrow> reachable (setFilters fp s)"
| r_resetFilters: "reachable s \<Longrightarrow> reachable (resetFilters s)"
| r_clearAllData: "reachable s \<Longrightarrow> reachable (clearAllData s)"
| r_importData: "reachable s \<Longrightarrow> reachable (snd (importData data s))"

section \<open>The job normalizer (class JobAPI)\<close>

text \<open>
  The upstream records are the values \<^verbatim>\<open>response.json()\<close> returns. A number is modelled
  by an integer: the model covers the integer-valued numbers of the safe range (below
  \<open>2^53\<close> in magnitude), where \<^verbatim>\<open>String(n)\<close> is the decimal numeral and no rounding
  occurs. An object is the association list of its own properties, with distinct keys;
  \<^verbatim>\<open>undefined\<close> is the value of a property that is not there.
\<close>

datatype jsval =
    JUndefined
  | JNull
  | JBool bool
  | JNum int
  | JStr string
  | JArr "jsval list"
  | JObj "(string \<times> jsval) list"

datatype exn = TypeError | SyntaxError

fun truthy :: "jsval \<Rightarrow> bool" where
  "truthy JUndefined = False"
| "truthy JNull = False"
| "truthy (JBool b) = b"
| "truthy (JNum n) = (n \<noteq> 0)"
| "truthy (JStr s) = (s \<noteq> [])"
| "truthy (JArr xs) = True"
| "truthy (JObj kvs) = True"

text \<open>\<^verbatim>\<open>a || b\<close>\<close>

definition js_or :: "jsval \<Rightarrow> jsval \<Rightarrow> jsval" where
  "js_or a b = (if truthy a then a else b)"

fun isArray :: "jsval \<Rightarrow> bool" where
  "isArray (JArr xs) = True"
| "isArray _ = False"

text \<open>
  \<^verbatim>\<open>v.k\<close> for the keys the normalizer reads: reading a property of \<^verbatim>\<open>null\<close> or
  \<^verbatim>\<open>undefined\<close> throws a TypeError; an array, a string, a number and a boolean have no
  property of these names.
\<close>

fun get_prop :: "jsval \<Rightarrow> string \<Rightarrow> exn + jsval" where
  "get_prop JUndefined k = Inl TypeError"
| "get_prop JNull k = Inl TypeError"
| "get_prop (JObj kvs) k = Inr (case map_of kvs k of Some v \<Rightarrow> v | None \<Rightarrow> JUndefined)"
| "get_prop v k = Inr JUndefined"

text \<open>A property read that follows a successful read on the same value.\<close>

definition read_prop :: "jsval \<Rightarrow> string \<Rightarrow> jsval" where
  "read_prop v k = (case get_prop v k of Inr x \<Rightarrow> x | Inl e \<Rightarrow> JUndefined)"

fun join_comma :: "string list \<Rightarrow> string" where
  "join_comma [] = []"
| "join_comma [s] = s"
| "join_comma (s # t # ss) = s @ '','' @ join_comma (t # ss)"

text \<open>\<^verbatim>\<open>String(v)\<close>; an array joins its elements, \<^verbatim>\<open>null\<close> and \<^verbatim>\<open>undefined\<close> as empty.\<close>

fun to_string :: "jsval \<Rightarrow> string" where
  "to_string JUndefined = ''undefined''"
| "to_string JNull = ''null''"
| "to_string (JBool b) = (if b then ''true'' else ''false'')"
| "to_string (JNum n) = dec_int n"
| "to_string (JStr s) = s"
| "to_string (JArr xs) =
     join_comma (map (\<lambda>x. if x = JUndefined \<or> x = JNull then [] else to_string x) xs)"
| "to_string (JObj kvs) = ''[object Object]''"

text \<open>
  \<^verbatim>\<open>parseInt(v)\<close> with no radix: leading white space is skipped, a sign is read, a prefix
  \<^verbatim>\<open>0x\<close> selects radix 16, and the longest run of digits is the value; \<open>None\<close> is NaN
  (no digit). White space is the ASCII white space here.
\<close>

definition is_ws :: "char \<Rightarrow> bool" where
  "is_ws c = (of_char c \<in> {9, 10, 11, 12, 13, 32 :: nat})"

definition digit_val :: "nat \<Rightarrow> char \<Rightarrow> nat option" where
  "digit_val R c =
     (let n = of_char c :: nat
      in if 48 \<le> n \<and> n \<le> 57 then Some (n - 48)
         else if R = 16 \<and> 97 \<le> n \<and> n \<le> 102 then Some (n - 87)
         else if R = 16 \<and> 65 \<le> n \<and> n \<le> 70 then Some (n - 55)
         else None)"

fun digits_value :: "nat \<Rightarrow> nat \<Rightarrow> string \<Rightarrow> nat" where
  "digits_value R acc [] = acc"
| "digits_value R acc (c # cs) =
     (case digit_val R c of Some d \<Rightarrow> digits_value R (acc * R + d) cs | None \<Rightarrow> acc)"

definition parseInt_string :: "string \<Rightarrow> int option" where
  "parseInt_string s =
     (let s1 = dropWhile is_ws s;
          (sign, s2) = (case s1 of
                          [] \<Rightarrow> (1, s1)
                        | c # r \<Rightarrow> if c = CHR ''-'' then (- 1, r)
                                   else if c = CHR ''+'' then (1, r) else (1, s1));
          (R, s3) = (if take 2 s2 = ''0x'' \<or> take 2 s2 = ''0X'' then (16, drop 2 s2)
                     else (10, s2))
      in case s3 of
           [] \<Rightarrow> None
         | c # cs \<Rightarrow> (case digit_val R c of
                        None \<Rightarrow> None
                      | Some d \<Rightarrow> Some (sign * int (digits_value R 0 s3))))"

definition parseInt :: "jsval \<Rightarrow> int option" where
  "parseInt v = parseInt_string (to_string v)"

text \<open>\<^verbatim>\<open>parseInt(v) || dflt\<close>: NaN and \<open>0\<close> are falsy.\<close>

definition parseInt_or :: "jsval \<Rightarrow> jsval \<Rightarrow> jsval" where
  "parseInt_or v dflt = (case parseInt v of None \<Rightarrow> dflt | Some n \<Rightarrow> js_or (JNum n) dflt)"

text \<open>
  The clock and the random text read by one call of \<^verbatim>\<open>normalizeJob\<close>:
  \<^verbatim>\<open>Date.now()\<close>, \<^verbatim>\<open>new Date().toISOString()\<close> and
  \<^verbatim>\<open>Math.random().toString(36).substr(2, 9)\<close>.
\<close>

record clock =
  now_ms :: int
  now_iso :: string
  rnd_text :: string

text \<open>
  The local function \<^verbatim>\<open>parseDate\<close>. The built-in date parser is a parameter:
  \<open>date_iso v\<close> is \<^verbatim>\<open>new Date(v).toISOString()\<close>, or \<open>None\<close> when the time value of
  \<^verbatim>\<open>new Date(v)\<close> is NaN or the constructor throws (the \<^verbatim>\<open>catch\<close> of \<^verbatim>\<open>parseDate\<close>
  returns \<^verbatim>\<open>null\<close> as well).
\<close>

definition parseDate :: "(jsval \<Rightarrow> string option) \<Rightarrow> jsval \<Rightarrow> jsval" where
  "parseDate date_iso dateStr =
     (if \<not> truthy dateStr then JNull
      else case date_iso dateStr of None \<Rightarrow> JNull | Some t \<Rightarrow> JStr t)"

text \<open>
  The body of the \<^verbatim>\<open>try\<close> block of \<^verbatim>\<open>normalizeJob\<close>. The built-in \<^verbatim>\<open>JSON.parse\<close> is
  the parameter \<open>json_parse\<close>, \<open>None\<close> when it throws a SyntaxError; that exception is
  caught by the inner \<^verbatim>\<open>catch\<close>. The first property read, \<^verbatim>\<open>job.qualifications\<close>, is
  the one that can throw.
\<close>

definition normalizeJob_body ::
  "(string \<Rightarrow> jsval option) \<Rightarrow> (jsval \<Rightarrow> string option) \<Rightarrow> clock \<Rightarrow> jsval \<Rightarrow> exn + jsval"
where
  "normalizeJob_body json_parse date_iso clk job =
     (case get_prop job ''qualifications'' of
        Inl e \<Rightarrow> Inl e
      | Inr q \<Rightarrow>
          (let qualifications = JArr [];
               qualifications =
                 (if truthy q
                  then (case q of
                          JStr s \<Rightarrow> (case json_parse s of None \<Rightarrow> JArr [] | Some v \<Rightarrow> v)
                        | JArr xs \<Rightarrow> q
                        | _ \<Rightarrow> qualifications)
                  else qualifications);
               qualifications = (if \<not> isArray qualifications then JArr [] else qualifications)
           in Inr (JObj
                [(''id'', js_or (read_prop job ''id'')
                           (JStr (''job_'' @ dec_int (now_ms clk) @ ''_'' @ rnd_text clk))),
                 (''title'', js_or (read_prop job ''title'') (JStr ''Untitled Position'')),
                 (''description'',
                    js_or (read_prop job ''description'') (JStr ''No description available'')),
                 (''company'', js_or (read_prop job ''company'') (JStr ''Unknown Company'')),
                 (''location'', js_or (read_prop job ''location'') (JStr ''Location not specified'')),
                 (''salary_from'', parseInt_or (read_prop job ''salary_from'') JNull),
                 (''salary_to'', parseInt_or (read_prop job ''salary_to'') JNull),
                 (''employment_type'', js_or (read_prop job ''employment_type'') (JStr ''Full-time'')),
                 (''application_deadline'', parseDate date_iso (read_prop job ''application_deadline'')),
                 (''qualifications'', qualifications),
                 (''contact'', js_or (read_prop job ''contact'') (JStr ''No contact information'')),
                 (''job_category'', js_or (read_prop job ''job_category'') (JStr ''Other'')),
                 (''is_remote_work'', JBool (truthy (read_prop job ''is_remote_work''))),
                 (''number_of_opening'', parseInt_or (read_prop job ''number_of_opening'') (JNum 1)),
                 (''created_at'',
                    js_or (parseDate date_iso (read_prop job ''created_at'')) (JStr (now_iso clk))),
                 (''updated_at'',
                    js_or (parseDate date_iso (read_prop job ''updated_at'')) (JStr (now_iso clk))),
                 (''source'', JStr ''api'')])))"

text \<open>\<^verbatim>\<open>normalizeJob(job)\<close>: the outer \<^verbatim>\<open>catch\<close> turns every exception into \<^verbatim>\<open>null\<close>.\<close>

definition normalizeJob ::
  "(string \<Rightarrow> jsval option) \<Rightarrow> (jsval \<Rightarrow> string option) \<Rightarrow> clock \<Rightarrow> jsval \<Rightarrow> jsval"
where
  "normalizeJob json_parse date_iso clk job =
     (case normalizeJob_body json_parse date_iso clk job of Inl e \<Rightarrow> JNull | Inr j \<Rightarrow> j)"

text \<open>
  \<^verbatim>\<open>normalizeJobs(jobs)\<close>; \<open>clks i\<close> is the clock and the random text of the call on the
  element at index \<open>i\<close>.
\<close>

definition normalizeJobs ::
  "(string \<Rightarrow> jsval option) \<Rightarrow> (jsval \<Rightarrow> string option) \<Rightarrow> (nat \<Rightarrow> clock) \<Rightarrow> jsval \<Rightarrow> jsval list"
where
  "normalizeJobs json_parse date_iso clks jobs =
     (case jobs of
        JArr xs \<Rightarrow>
          filter (\<lambda>job. job \<noteq> JNull)
            (map (\<lambda>(i, job). normalizeJob json_parse date_iso (clks i) job) (enumerate 0 xs))
      | _ \<Rightarrow> [])"

section \<open>Notions used to state the properties\<close>

text \<open>The events emitted on the way from state \<open>s\<close> to state \<open>s'\<close>.\<close>

definition emitted :: "state \<Rightarrow> state \<Rightarrow> event list" where
  "emitted s s' = drop (length (events s)) (events s')"

text \<open>
  The conjunction of the four filters in the words of the specification: the text search
  is the case-insensitive substring match over title, company and description, the
  category is compared exactly, the location case-insensitively.
\<close>

definition matchesAllFilters :: "filters \<Rightarrow> job \<Rightarrow> bool" where
  "matchesAllFilters f j =
     ((search f = [] \<or>
         sublist (toLowerCase (search f)) (toLowerCase (title j)) \<or>
         sublist (toLowerCase (search f)) (toLowerCase (company j)) \<or>
         sublist (toLowerCase (search f)) (toLowerCase (description j))) \<and>
      (\<not> remoteOnly f \<or> is_remote_work j) \<and>
      (category f = [] \<or> job_category j = category f) \<and>
      (location_flt f = [] \<or>
         sublist (toLowerCase (location_flt f)) (toLowerCase (location j))))"

text \<open>
  The average salary in the words of the specification, \<open>(salary_from + salary_to) / 2\<close>;
  \<open>None\<close> when a bound is missing, that is \<^verbatim>\<open>null\<close>.
\<close>

definition averageSalary :: "job \<Rightarrow> rat option" where
  "averageSalary j =
     (case (salary_from j, salary_to j) of
        (Some a, Some b) \<Rightarrow> Some (of_int (a + b) / 2)
      | _ \<Rightarrow> None)"

text \<open>
  The two orders of the specification: descending by the average, a missing one counted
  as \<open>0\<close>, and ascending by the average, a missing one counted as \<open>+\<infinity>\<close>.
\<close>

definition spec_salary_desc :: "job \<Rightarrow> job \<Rightarrow> bool" where
  "spec_salary_desc a b =
     ((case averageSalary a of None \<Rightarrow> 0 | Some x \<Rightarrow> x) \<ge>
      (case averageSalary b of None \<Rightarrow> 0 | Some y \<Rightarrow> y))"

definition spec_salary_asc :: "job \<Rightarrow> job \<Rightarrow> bool" where
  "spec_salary_asc a b =
     (case averageSalary b of
        None \<Rightarrow> True
      | Some y \<Rightarrow> (case averageSalary a of None \<Rightarrow> False | Some x \<Rightarrow> x \<le> y))"

text \<open>
  The same average and the same two orders where a bound of \<open>0\<close> counts as missing too.
\<close>

definition nonzeroAverage :: "job \<Rightarrow> rat option" where
  "nonzeroAverage j =
     (case (salary_from j, salary_to j) of
        (Some a, Some b) \<Rightarrow> if a = 0 \<or> b = 0 then None else Some (of_int (a + b) / 2)
      | _ \<Rightarrow> None)"

definition salary_desc :: "job \<Rightarrow> job \<Rightarrow> bool" where
  "salary_desc a b =
     ((case nonzeroAverage a of None \<Rightarrow> 0 | Some x \<Rightarrow> x) \<ge>
      (case nonzeroAverage b of None \<Rightarrow> 0 | Some y \<Rightarrow> y))"

definition salary_asc :: "job \<Rightarrow> job \<Rightarrow> bool" where
  "salary_asc a b =
     (case nonzeroAverage b of
        None \<Rightarrow> True
      | Some y \<Rightarrow> (case nonzeroAverage a of None \<Rightarrow> False | Some x \<Rightarrow> x \<le> y))"

text \<open>The roles \<^verbatim>\<open>setUserRole\<close> accepts and the themes \<^verbatim>\<open>setTheme\<close> accepts.\<close>

definition validRole :: "string \<Rightarrow> bool" where
  "validRole r = (r = ''job_seeker'' \<or> r = ''recruiter'')"

definition validTheme :: "string \<Rightarrow> bool" where
  "validTheme t = (t = ''light'' \<or> t = ''dark'')"

text \<open>The role and the theme are valid, in the store and in the storage.\<close>

definition role_theme_valid :: "state \<Rightarrow> bool" where
  "role_theme_valid s =
     (validRole (userRole s) \<and> validTheme (theme s) \<and>
      (case USER_ROLE (store s) of None \<Rightarrow> True | Some r \<Rightarrow> validRole r) \<and>
      (case THEME (store s) of None \<Rightarrow> True | Some t \<Rightarrow> validTheme t))"

text \<open>A decimal digit.\<close>

definition is_dec :: "char \<Rightarrow> bool" where
  "is_dec c = (48 \<le> (of_char c :: nat) \<and> (of_char c :: nat) \<le> 57)"

section \<open>Example inputs\<close>

text \<open>The first record of \<^verbatim>\<open>getMockJobs\<close> (description shortened), created at time 0.\<close>

definition mock_1 :: job where
  "mock_1 =
     \<lparr>title = ''Frontend Developer'', company = ''Tech Solutions Inc'',
      location = ''San Francisco, CA'', salary_from = Some 80000, salary_to = Some 120000,
      employment_type = ''Full-time'', job_category = ''Software Engineer'',
      description = ''We are looking for a skilled Frontend Developer to join our team.'',
      qualifications = [''3+ years React experience''], contact = ''hr@techsolutions.com'',
      number_of_opening = 2, is_remote_work = True, application_deadline = Some 2592000000,
      job_id = ''mock_1'', created_at = 0, updated_at = 0, source = ''mock''\<rparr>"

text \<open>A store in which the job \<^verbatim>\<open>j1\<close> has been saved once.\<close>

definition saved_once :: state where
  "saved_once = saveJob ''j1'' (constructor emptyStorage)"

text \<open>A store whose filtered view holds twenty jobs, on page 1.\<close>

definition twenty_filtered :: state where
  "twenty_filtered = (constructor emptyStorage)\<lparr>filteredJobs := replicate 20 mock_1\<rparr>"

text \<open>
  Three jobs and the filter \<^verbatim>\<open>{search: "Dev", remoteOnly: true}\<close>: a remote job that does not
  match the search, a matching job that is not remote, and a remote matching job.
\<close>

definition onsite_dev :: job where
  "onsite_dev = mock_1\<lparr>job_id := ''mock_2'', title := ''Backend DEVELOPER'', is_remote_work := False\<rparr>"

definition remote_chef :: job where
  "remote_chef =
     mock_1\<lparr>job_id := ''mock_3'', title := ''Chef'', company := ''Bistro'',
       description := ''Cooking'', is_remote_work := True\<rparr>"

definition dev_remote_store :: state where
  "dev_remote_store =
     (constructor emptyStorage)\<lparr>allJobs := [remote_chef, onsite_dev, mock_1],
        filters := defaultFilters\<lparr>search := ''Dev'', remoteOnly := True\<rparr>\<rparr>"

text \<open>The jobs A (50k to 70k), B (no salary) and C (100k to 120k).\<close>

definition job_A :: job where
  "job_A = mock_1\<lparr>job_id := ''A'', salary_from := Some 50000, salary_to := Some 70000\<rparr>"

definition job_B :: job where
  "job_B = mock_1\<lparr>job_id := ''B'', salary_from := None, salary_to := None\<rparr>"

definition job_C :: job where
  "job_C = mock_1\<lparr>job_id := ''C'', salary_from := Some 100000, salary_to := Some 120000\<rparr>"

text \<open>
  The jobs Z (0 to 200k) and Y (0 to 20k), with a lower bound of \<open>0\<close>, each in a store
  beside A: sorted by \<^verbatim>\<open>salary_high\<close> and by \<^verbatim>\<open>salary_low\<close>.
\<close>

definition job_Z :: job where
  "job_Z = mock_1\<lparr>job_id := ''Z'', salary_from := Some 0, salary_to := Some 200000\<rparr>"

definition job_Y :: job where
  "job_Y = mock_1\<lparr>job_id := ''Y'', salary_from := Some 0, salary_to := Some 20000\<rparr>"

definition zero_bound_high :: state where
  "zero_bound_high =
     setFilters \<lparr>p_search = None, p_sort = Some ''salary_high'', p_remoteOnly = None,
                 p_category = None, p_location_flt = None\<rparr>
       (setAllJobs [job_Z, job_A] (constructor emptyStorage))"

definition zero_bound_low :: state where
  "zero_bound_low =
     setFilters \<lparr>p_search = None, p_sort = Some ''salary_low'', p_remoteOnly = None,
                 p_category = None, p_location_flt = None\<rparr>
       (setAllJobs [job_A, job_Y] (constructor emptyStorage))"

text \<open>A store that holds A, B and C and sorts by \<open>srt\<close>.\<close>

definition abc_store :: "string \<Rightarrow> state" where
  "abc_store srt =
     (constructor emptyStorage)\<lparr>allJobs := [job_A, job_B, job_C],
        filters := defaultFilters\<lparr>sort_flt := srt\<rparr>\<rparr>"

text \<open>
  The scenario of the specification: an empty store, \<^verbatim>\<open>setAllJobs([job])\<close>, then
  \<^verbatim>\<open>applyForJob\<close> with the details of Ann.
\<close>

definition ann :: applicantDetails where
  "ann = \<lparr>name = ''Ann'', email = ''a@x.com'', coverLetter = None\<rparr>"

definition one_job :: state where
  "one_job = setAllJobs [mock_1] (constructor emptyStorage)"

definition applied_once :: state where
  "applied_once = snd (applyForJob 1700000000000 ''k3j9x0q1z'' ''mock_1'' ann one_job)"

text \<open>A patch that changes the title, the empty patch, and a job posted through the form.\<close>

definition emptyPatch :: jobPatch where
  "emptyPatch =
     \<lparr>p_title = None, p_company = None, p_location = None, p_salary_from = None,
      p_salary_to = None, p_employment_type = None, p_job_category = None,
      p_description = None, p_qualifications = None, p_contact = None,
      p_number_of_opening = None, p_is_remote_work = None, p_application_deadline = None,
      p_job_id = None, p_created_at = None, p_updated_at = None, p_source = None\<rparr>"

definition retitle :: jobPatch where
  "retitle = emptyPatch\<lparr>p_title := Some ''Senior Frontend Developer''\<rparr>"

definition form_data :: jobData where
  "form_data =
     \<lparr>title = ''Chef'', company = ''Bistro'', location = ''Lyon'', salary_from = Some 30000,
      salary_to = None, employment_type = ''Full-time'', job_category = ''Other'',
      description = ''Cooking'', qualifications = [], contact = ''chef@bistro.fr'',
      number_of_opening = 1, is_remote_work = False, application_deadline = Some 2592000000\<rparr>"

definition posted :: state where
  "posted = snd (addJob 1000 ''abcdefghi'' form_data one_job)"

definition posted_id :: string where
  "posted_id = ''user_job_'' @ dec_int 1000 @ ''_'' @ ''abcdefghi''"

text \<open>Ten jobs, viewed on page 2 (the tenth job is alone on it).\<close>

definition ten_jobs :: "job list" where
  "ten_jobs = map (\<lambda>c. mock_1\<lparr>job_id := [c], title := ''Job '' @ [c]\<rparr>) ''abcdefghij''"

definition on_page_2 :: state where
  "on_page_2 = setPage 2 (setAllJobs ten_jobs (constructor emptyStorage))"

text \<open>
  Inputs for the normalizer. \<open>parse_string_array\<close> stands for \<^verbatim>\<open>JSON.parse\<close> in the
  examples: it parses the JSON arrays of strings without escapes or white space and
  rejects every other text. \<open>known_date\<close> stands for the date parser and knows the one
  timestamp of the examples.
\<close>

definition example_clock :: clock where
  "example_clock =
     \<lparr>now_ms = 1700000000000, now_iso = ''2023-11-14T22:13:20.000Z'', rnd_text = ''k3j9x0q1z''\<rparr>"

fun quoted_text :: "string \<Rightarrow> (string \<times> string) option" where
  "quoted_text [] = None"
| "quoted_text (c # cs) =
     (if c = CHR 0x22 then Some ([], cs)
      else if c = CHR 0x5C \<or> (of_char c :: nat) < 32 then None
      else (case quoted_text cs of None \<Rightarrow> None | Some (s, r) \<Rightarrow> Some (c # s, r)))"

fun string_elements :: "nat \<Rightarrow> string \<Rightarrow> jsval list option" where
  "string_elements 0 s = None"
| "string_elements (Suc k) s =
     (case s of
        [] \<Rightarrow> None
      | c # r \<Rightarrow>
          if c \<noteq> CHR 0x22 then None
          else (case quoted_text r of
                  None \<Rightarrow> None
                | Some (x, r') \<Rightarrow>
                    if r' = '']'' then Some [JStr x]
                    else (case r' of
                            [] \<Rightarrow> None
                          | d # r'' \<Rightarrow>
                              if d \<noteq> CHR '','' then None
                              else (case string_elements k r'' of
                                      None \<Rightarrow> None
                                    | Some xs \<Rightarrow> Some (JStr x # xs)))))"

definition parse_string_array :: "string \<Rightarrow> jsval option" where
  "parse_string_array s =
     (if s = ''[]'' then Some (JArr [])
      else (case s of
              [] \<Rightarrow> None
            | c # r \<Rightarrow> if c \<noteq> CHR ''['' then None
                       else map_option JArr (string_elements (length r) r)))"

definition known_date :: "jsval \<Rightarrow> string option" where
  "known_date v =
     (if v = JStr ''2024-01-15T10:30:00.000Z'' then Some ''2024-01-15T10:30:00.000Z'' else None)"

definition raw_bad_qualifications :: jsval where
  "raw_bad_qualifications =
     JObj [(''id'', JStr ''17''), (''company'', JStr ''Acme''),
           (''qualifications'', JStr ''{not valid json''),
           (''created_at'', JStr ''2024-01-15T10:30:00.000Z'')]"

definition raw_zero_salary :: jsval where
  "raw_zero_salary =
     JObj [(''id'', JStr ''18''), (''title'', JStr ''Intern''), (''salary_from'', JNum 0),
           (''salary_to'', JNum 0), (''number_of_opening'', JNum 0)]"

section \<open>Properties of the primitives\<close>

lemma findIndex_range: "findIndex P xs = -1 \<or> (0 \<le> findIndex P xs \<and> findIndex P xs < int (length xs))"
  by (induction xs) (auto simp: Let_def)

lemma findIndex_none: "findIndex P xs = -1 \<longleftrightarrow> (\<forall>x\<in>set xs. \<not> P x)"
proof (induction xs)
  case Nil
  show ?case by simp
next
  case (Cons a xs)
  have "findIndex P xs = -1 \<or> 0 \<le> findIndex P xs" using findIndex_range [of P xs] by auto
  with Cons show ?case by (auto simp: Let_def)
qed

lemma findIndex_found: "findIndex P xs \<noteq> -1 \<Longrightarrow> P (xs ! nat (findIndex P xs))"
proof (induction xs)
  case Nil
  then show ?case by simp
next
  case (Cons a xs)
  have r: "findIndex P xs = -1 \<or> 0 \<le> findIndex P xs" using findIndex_range [of P xs] by auto
  show ?case
  proof (cases "P a")
    case True
    then show ?thesis by simp
  next
    case False
    with Cons.prems have ne: "findIndex P xs \<noteq> -1" by (auto simp: Let_def split: if_splits)
    with r have "0 \<le> findIndex P xs" by simp
    then have "nat (findIndex P xs + 1) = Suc (nat (findIndex P xs))" by simp
    with False ne Cons.IH show ?thesis by (simp add: Let_def)
  qed
qed

lemma indexOf_mem: "indexOf xs x > -1 \<longleftrightarrow> x \<in> set xs"
  using findIndex_none [of "\<lambda>y. y = x" xs] findIndex_range [of "\<lambda>y. y = x" xs]
  by (auto simp: indexOf_def)

lemma findIndex_job_none:
  "findIndex (\<lambda>j. job_id j = x) js = -1 \<longleftrightarrow> x \<notin> job_id ` set js"
  by (auto simp: findIndex_none)

lemma findIndex_nat_less:
  "findIndex P xs \<noteq> -1 \<Longrightarrow> nat (findIndex P xs) < length xs"
  using findIndex_range [of P xs] by auto

lemma find_job_None: "find (\<lambda>j. job_id j = x) js = None \<longleftrightarrow> x \<notin> job_id ` set js"
  by (auto simp: find_None_iff)

lemma find_job_Some: "find (\<lambda>j. job_id j = x) js = Some j \<Longrightarrow> j \<in> set js \<and> job_id j = x"
  by (auto simp: find_Some_iff)

lemma slice_beyond: "int (length xs) \<le> start \<Longrightarrow> 0 \<le> start \<Longrightarrow> slice xs start e = []"
  by (auto simp: slice_def Let_def)

section \<open>Saved jobs\<close>

text \<open>
  Claim C5, as the code has it. \<^verbatim>\<open>saveJob(x)\<close> is idempotent and leaves \<open>x\<close> saved. From a
  state in which \<open>x\<close> is not yet saved, two calls leave exactly one occurrence of \<open>x\<close> in the
  saved list and emit \<^verbatim>\<open>jobSaved\<close> exactly once, on the first call. From a state in which
  \<open>x\<close> is already saved, \<^verbatim>\<open>saveJob(x)\<close> changes nothing and emits nothing. \<^verbatim>\<open>unsaveJob(x)\<close>
  changes nothing and emits nothing when \<open>x\<close> is not saved, and emits \<^verbatim>\<open>jobUnsaved\<close> once
  when it is.
\<close>

theorem saveJob_twice:
  "isJobSaved x (saveJob x (saveJob x s)) \<and>
   saveJob x (saveJob x s) = saveJob x s \<and>
   (\<not> isJobSaved x s \<longrightarrow>
      count_list (savedJobs (saveJob x (saveJob x s))) x = 1 \<and>
      emitted s (saveJob x s) = [JobSaved x] \<and>
      emitted (saveJob x s) (saveJob x (saveJob x s)) = []) \<and>
   (isJobSaved x s \<longrightarrow> saveJob x s = s) \<and>
   (\<not> isJobSaved x s \<longrightarrow> unsaveJob x s = s) \<and>
   (isJobSaved x s \<longrightarrow> emitted s (unsaveJob x s) = [JobUnsaved x])"
  using indexOf_mem [of "savedJobs s" x]
  by (auto simp: saveJob_def isJobSaved_def unsaveJob_def emitted_def emit_def Let_def
      count_list_0_iff)

theorem saveJob_twice_witness:
  "\<not> isJobSaved ''j1'' (constructor emptyStorage) \<and>
   count_list (savedJobs (saveJob ''j1'' (saveJob ''j1'' (constructor emptyStorage)))) ''j1'' = 1 \<and>
   emitted (constructor emptyStorage) (saveJob ''j1'' (constructor emptyStorage)) = [JobSaved ''j1''] \<and>
   unsaveJob ''j1'' (constructor emptyStorage) = constructor emptyStorage \<and>
   isJobSaved ''j1'' saved_once \<and>
   saveJob ''j1'' saved_once = saved_once \<and>
   emitted saved_once (unsaveJob ''j1'' saved_once) = [JobUnsaved ''j1'']"
proof -
  have fresh: "\<not> isJobSaved ''j1'' (constructor emptyStorage)"
    by (simp add: isJobSaved_def constructor_def init_def emptyStorage_def)
  have saved: "isJobSaved ''j1'' saved_once"
    by (simp add: saved_once_def isJobSaved_def saveJob_def constructor_def init_def
        emptyStorage_def emit_def Let_def)
  show ?thesis
    using fresh saved saveJob_twice [of "''j1''" "constructor emptyStorage"]
      saveJob_twice [of "''j1''" saved_once]
    by blast
qed

text \<open>
  Claim C5 as stated fails where \<open>x\<close> is already saved: two calls of \<^verbatim>\<open>saveJob\<close> emit no
  \<^verbatim>\<open>jobSaved\<close> at all, not exactly one.
\<close>

theorem saveJob_twice_counterexample:
  "count_list (emitted saved_once (saveJob ''j1'' (saveJob ''j1'' saved_once))) (JobSaved ''j1'') \<noteq> 1"
  by (simp add: saved_once_def saveJob_def isJobSaved_def constructor_def init_def emptyStorage_def emit_def emitted_def Let_def)

section \<open>Pagination\<close>

lemma totalPages_eq:
  "totalPages (getPaginationInfo s) = max 1 \<lceil>(of_nat (length (filteredJobs s)) :: rat) / 9\<rceil>"
proof -
  define c where "c = \<lceil>(of_nat (length (filteredJobs s)) :: rat) / 9\<rceil>"
  have e: "totalPages (getPaginationInfo s) = (if c = 0 then 1 else c)"
    unfolding c_def by (simp add: getPaginationInfo_def Let_def itemsPerPage_def)
  have "0 \<le> c" unfolding c_def by simp
  with e have "totalPages (getPaginationInfo s) = max 1 c" by auto
  then show ?thesis unfolding c_def .
qed

lemma twenty_pages: "totalPages (getPaginationInfo twenty_filtered) = 3"
proof -
  have "\<lceil>(20::rat) / 9\<rceil> = 3"
    by (rule ceiling_unique) simp_all
  then show ?thesis
    by (simp add: getPaginationInfo_def twenty_filtered_def Let_def itemsPerPage_def)
qed

lemma twenty_current: "currentPage twenty_filtered = 1"
  by (simp add: twenty_filtered_def constructor_def init_def)

text \<open>
  Claim C4. \<^verbatim>\<open>getPaginationInfo\<close> reports \<open>totalPages = max 1 (ceil (n / 9))\<close> for a
  filtered view of \<open>n\<close> jobs, so at least 1 also when \<open>n = 0\<close>. For every integer \<open>p\<close>,
  \<^verbatim>\<open>setPage(p)\<close> clamps \<open>p\<close> into \<open>[1, totalPages]\<close> (a page within the range is kept); when
  the clamped value is the current page the state is unchanged, so nothing is emitted;
  otherwise the current page becomes the clamped value and exactly \<^verbatim>\<open>pageChanged\<close> is
  emitted, with the new pagination info. The filter state and the filtered view are never
  altered.
\<close>

theorem setPage_clamps:
  "totalPages (getPaginationInfo s) = max 1 \<lceil>(of_nat (length (filteredJobs s)) :: rat) / 9\<rceil> \<and>
   1 \<le> totalPages (getPaginationInfo s) \<and>
   1 \<le> max 1 (min p (totalPages (getPaginationInfo s))) \<and>
   max 1 (min p (totalPages (getPaginationInfo s))) \<le> totalPages (getPaginationInfo s) \<and>
   (1 \<le> p \<and> p \<le> totalPages (getPaginationInfo s) \<longrightarrow>
      max 1 (min p (totalPages (getPaginationInfo s))) = p) \<and>
   (max 1 (min p (totalPages (getPaginationInfo s))) = currentPage s \<longrightarrow> setPage p s = s) \<and>
   (max 1 (min p (totalPages (getPaginationInfo s))) \<noteq> currentPage s \<longrightarrow>
      currentPage (setPage p s) = max 1 (min p (totalPages (getPaginationInfo s))) \<and>
      emitted s (setPage p s) = [PageChanged (getPaginationInfo (setPage p s))]) \<and>
   filters (setPage p s) = filters s \<and>
   filteredJobs (setPage p s) = filteredJobs s"
proof -
  define c where "c = max 1 (min p (totalPages (getPaginationInfo s)))"
  have t: "1 \<le> totalPages (getPaginationInfo s)"
    by (simp add: totalPages_eq)
  have sp: "setPage p s =
     (if currentPage s \<noteq> c
      then emit (PageChanged (getPaginationInfo (s\<lparr>currentPage := c\<rparr>))) (s\<lparr>currentPage := c\<rparr>)
      else s)"
    by (simp add: setPage_def Let_def c_def)
  have i: "getPaginationInfo (emit e s') = getPaginationInfo s'" for e s'
    by (simp add: getPaginationInfo_def emit_def)
  have r: "1 \<le> c" "c \<le> totalPages (getPaginationInfo s)"
    "1 \<le> p \<and> p \<le> totalPages (getPaginationInfo s) \<longrightarrow> c = p"
    using t by (auto simp: c_def)
  have same: "c = currentPage s \<longrightarrow> setPage p s = s"
    by (simp add: sp)
  have moved: "c \<noteq> currentPage s \<longrightarrow>
      currentPage (setPage p s) = c \<and>
      emitted s (setPage p s) = [PageChanged (getPaginationInfo (setPage p s))]"
    by (simp add: sp i emitted_def) (simp add: emit_def)
  have keep: "filters (setPage p s) = filters s" "filteredJobs (setPage p s) = filteredJobs s"
    by (simp_all add: sp emit_def)
  show ?thesis
    using totalPages_eq [of s] t r same moved keep
    unfolding c_def by blast
qed

theorem setPage_clamps_witness:
  "totalPages (getPaginationInfo twenty_filtered) = 3 \<and>
   currentPage (setPage 5 twenty_filtered) = 3 \<and>
   emitted twenty_filtered (setPage 5 twenty_filtered) =
     [PageChanged (getPaginationInfo (setPage 5 twenty_filtered))] \<and>
   max 1 (min 2 (totalPages (getPaginationInfo twenty_filtered))) = 2 \<and>
   setPage 0 twenty_filtered = twenty_filtered"
  using setPage_clamps [of twenty_filtered 5] setPage_clamps [of twenty_filtered 0]
    setPage_clamps [of twenty_filtered 2]
  by (simp add: twenty_pages twenty_current)

section \<open>Applications\<close>

text \<open>
  Claim C1. \<^verbatim>\<open>applyForJob(x, details)\<close> throws DuplicateApplication when an application with
  \<open>jobId = x\<close> exists; otherwise it throws JobNotFound when no job of the canonical
  collection has the id \<open>x\<close>; in both cases the state, and so the list of applications, is
  unchanged. Otherwise it appends exactly one application, whose \<open>jobTitle\<close> and \<open>company\<close>
  are the title and the company of the job found, whose status is \<^verbatim>\<open>pending\<close> and which
  carries the applicant's details; it emits \<^verbatim>\<open>applicationSubmitted\<close> and returns that
  application. A second call for \<open>x\<close> then throws DuplicateApplication and creates no second
  record.
\<close>

theorem applyForJob_cases:
  "(hasApplied x s \<longleftrightarrow> (\<exists>a\<in>set (applications s). jobId a = x)) \<and>
   (getJobById x s = None \<longleftrightarrow> x \<notin> job_id ` set (allJobs s)) \<and>
   (hasApplied x s \<longrightarrow> applyForJob now rnd x d s = (Inl DuplicateApplication, s)) \<and>
   (\<not> hasApplied x s \<and> getJobById x s = None \<longrightarrow>
      applyForJob now rnd x d s = (Inl JobNotFound, s)) \<and>
   (\<not> hasApplied x s \<and> getJobById x s = Some j \<longrightarrow>
      j \<in> set (allJobs s) \<and> job_id j = x \<and>
      (\<exists>app s'. applyForJob now rnd x d s = (Inr app, s') \<and>
         applications s' = applications s @ [app] \<and>
         jobId app = x \<and> jobTitle app = title j \<and> app_company app = company j \<and>
         status app = ''pending'' \<and>
         name app = name d \<and> email app = email d \<and> coverLetter app = coverLetter d \<and>
         emitted s s' = [ApplicationSubmitted app] \<and>
         allJobs s' = allJobs s \<and>
         applyForJob now' rnd' x d' s' = (Inl DuplicateApplication, s')))"
proof (cases "find (\<lambda>j. job_id j = x) (allJobs s)")
  case None
  then have "x \<notin> job_id ` set (allJobs s)"
    by (simp add: find_job_None)
  with None show ?thesis
    by (auto simp: applyForJob_def hasApplied_def getJobById_def list_ex_iff)
next
  case (Some j')
  then have "j' \<in> set (allJobs s)" "job_id j' = x"
    using find_job_Some [of x "allJobs s" j'] by simp_all
  with Some show ?thesis
    by (auto simp: applyForJob_def hasApplied_def getJobById_def list_ex_iff
        emitted_def emit_def Let_def)
qed

lemma one_job_fields: "allJobs one_job = [mock_1]" "applications one_job = []"
  "userJobs one_job = []"
  by code_simp+

lemma one_job_facts:
  "\<not> hasApplied ''mock_1'' one_job" "getJobById ''mock_1'' one_job = Some mock_1"
  "\<not> hasApplied ''j2'' one_job" "getJobById ''j2'' one_job = None"
  by (simp_all add: hasApplied_def getJobById_def one_job_fields) (simp_all add: mock_1_def)

lemma applied_once_facts:
  "hasApplied ''mock_1'' applied_once" "length (getApplications applied_once) = 1"
  by (simp_all add: applied_once_def applyForJob_def hasApplied_def getApplications_def
      one_job_fields Let_def emit_def) (simp_all add: mock_1_def hasApplied_def one_job_fields emit_def)

theorem applyForJob_cases_witness:
  "\<not> hasApplied ''mock_1'' one_job \<and> getJobById ''mock_1'' one_job = Some mock_1 \<and>
   (\<exists>app s'. applyForJob 1700000000000 ''k3j9x0q1z'' ''mock_1'' ann one_job = (Inr app, s') \<and>
      applications s' = applications one_job @ [app] \<and> status app = ''pending'' \<and>
      jobTitle app = title mock_1 \<and>
      applyForJob 1700000000001 ''zzzzzzzzz'' ''mock_1'' ann s' = (Inl DuplicateApplication, s')) \<and>
   \<not> hasApplied ''j2'' one_job \<and> getJobById ''j2'' one_job = None \<and>
   applyForJob 1700000000000 ''k3j9x0q1z'' ''j2'' ann one_job = (Inl JobNotFound, one_job) \<and>
   hasApplied ''mock_1'' applied_once \<and>
   applyForJob 1700000000001 ''zzzzzzzzz'' ''mock_1'' ann applied_once =
     (Inl DuplicateApplication, applied_once) \<and>
   length (getApplications applied_once) = 1"
proof -
  note a = one_job_facts and b = applied_once_facts
  have 1: "\<exists>app s'. applyForJob 1700000000000 ''k3j9x0q1z'' ''mock_1'' ann one_job = (Inr app, s') \<and>
      applications s' = applications one_job @ [app] \<and> status app = ''pending'' \<and>
      jobTitle app = title mock_1 \<and>
      applyForJob 1700000000001 ''zzzzzzzzz'' ''mock_1'' ann s' = (Inl DuplicateApplication, s')"
    using a applyForJob_cases [of "''mock_1''" one_job 1700000000000 "''k3j9x0q1z''" ann mock_1
        1700000000001 "''zzzzzzzzz''" ann]
    by blast
  have 2: "applyForJob 1700000000000 ''k3j9x0q1z'' ''j2'' ann one_job = (Inl JobNotFound, one_job)"
    using a applyForJob_cases [of "''j2''" one_job 1700000000000 "''k3j9x0q1z''" ann]
    by blast
  have 3: "applyForJob 1700000000001 ''zzzzzzzzz'' ''mock_1'' ann applied_once =
     (Inl DuplicateApplication, applied_once)"
    using b applyForJob_cases [of "''mock_1''" applied_once 1700000000001 "''zzzzzzzzz''" ann]
    by blast
  from a b 1 2 3 show ?thesis by blast
qed

section \<open>Updating a job\<close>

text \<open>
  Claim C9. \<^verbatim>\<open>updateJob(id, patch)\<close> has no \<^verbatim>\<open>throw\<close>: it returns for every input. A
  collection that holds no job with the id is left unchanged, so with the id absent from
  both collections both are unchanged (the events \<^verbatim>\<open>jobUpdated\<close>, with \<^verbatim>\<open>null\<close>, and
  \<^verbatim>\<open>jobsUpdated\<close> are still emitted). A collection that holds the id has its first record
  with that id replaced by the merged record. In the merged record every key other than
  \<open>updated_at\<close> has the value of the patch when the patch holds the key and the value of
  the old record otherwise, and \<open>updated_at\<close> is the time of the call. When both
  collections hold the id, the one merged record, made from the record of the user jobs,
  is stored in both.
\<close>

theorem updateJob_cases:
  "(jid \<notin> job_id ` set (userJobs s) \<longrightarrow> userJobs (updateJob now jid p s) = userJobs s) \<and>
   (jid \<notin> job_id ` set (allJobs s) \<longrightarrow> allJobs (updateJob now jid p s) = allJobs s) \<and>
   (jid \<notin> job_id ` set (userJobs s) \<and> jid \<notin> job_id ` set (allJobs s) \<longrightarrow>
      updateJob now jid p s =
        emit (JobsUpdated (filteredJobs (applyFilters s)))
          (emit (JobUpdated None) (applyFilters s)) \<and>
      emitted s (updateJob now jid p s) =
        [JobUpdated None, JobsUpdated (filteredJobs (applyFilters s))]) \<and>
   (jid \<in> job_id ` set (userJobs s) \<longrightarrow>
      nat (findIndex (\<lambda>j. job_id j = jid) (userJobs s)) < length (userJobs s) \<and>
      job_id (userJobs s ! nat (findIndex (\<lambda>j. job_id j = jid) (userJobs s))) = jid \<and>
      userJobs (updateJob now jid p s) =
        (userJobs s)[nat (findIndex (\<lambda>j. job_id j = jid) (userJobs s)) :=
           mergeJob (userJobs s ! nat (findIndex (\<lambda>j. job_id j = jid) (userJobs s))) p now]) \<and>
   (jid \<in> job_id ` set (allJobs s) \<longrightarrow>
      nat (findIndex (\<lambda>j. job_id j = jid) (allJobs s)) < length (allJobs s) \<and>
      job_id (allJobs s ! nat (findIndex (\<lambda>j. job_id j = jid) (allJobs s))) = jid \<and>
      allJobs (updateJob now jid p s) =
        (allJobs s)[nat (findIndex (\<lambda>j. job_id j = jid) (allJobs s)) :=
           mergeJob
             (if jid \<in> job_id ` set (userJobs s)
              then userJobs s ! nat (findIndex (\<lambda>j. job_id j = jid) (userJobs s))
              else allJobs s ! nat (findIndex (\<lambda>j. job_id j = jid) (allJobs s))) p now]) \<and>
   updated_at (mergeJob old p now) = now \<and>
   (p_title p = None \<longrightarrow> title (mergeJob old p now) = title old) \<and>
   (p_title p = Some t \<longrightarrow> title (mergeJob old p now) = t) \<and>
   title (mergeJob old p now) = (case p_title p of None \<Rightarrow> title old | Some v \<Rightarrow> v) \<and>
   company (mergeJob old p now) = (case p_company p of None \<Rightarrow> company old | Some v \<Rightarrow> v) \<and>
   location (mergeJob old p now) =
     (case p_location p of None \<Rightarrow> location old | Some v \<Rightarrow> v) \<and>
   salary_from (mergeJob old p now) =
     (case p_salary_from p of None \<Rightarrow> salary_from old | Some v \<Rightarrow> v) \<and>
   salary_to (mergeJob old p now) =
     (case p_salary_to p of None \<Rightarrow> salary_to old | Some v \<Rightarrow> v) \<and>
   employment_type (mergeJob old p now) =
     (case p_employment_type p of None \<Rightarrow> employment_type old | Some v \<Rightarrow> v) \<and>
   job_category (mergeJob old p now) =
     (case p_job_category p of None \<Rightarrow> job_category old | Some v \<Rightarrow> v) \<and>
   description (mergeJob old p now) =
     (case p_description p of None \<Rightarrow> description old | Some v \<Rightarrow> v) \<and>
   qualifications (mergeJob old p now) =
     (case p_qualifications p of None \<Rightarrow> qualifications old | Some v \<Rightarrow> v) \<and>
   contact (mergeJob old p now) = (case p_contact p of None \<Rightarrow> contact old | Some v \<Rightarrow> v) \<and>
   number_of_opening (mergeJob old p now) =
     (case p_number_of_opening p of None \<Rightarrow> number_of_opening old | Some v \<Rightarrow> v) \<and>
   is_remote_work (mergeJob old p now) =
     (case p_is_remote_work p of None \<Rightarrow> is_remote_work old | Some v \<Rightarrow> v) \<and>
   application_deadline (mergeJob old p now) =
     (case p_application_deadline p of None \<Rightarrow> application_deadline old | Some v \<Rightarrow> v) \<and>
   job_id (mergeJob old p now) = (case p_job_id p of None \<Rightarrow> job_id old | Some v \<Rightarrow> v) \<and>
   created_at (mergeJob old p now) =
     (case p_created_at p of None \<Rightarrow> created_at old | Some v \<Rightarrow> v) \<and>
   source (mergeJob old p now) = (case p_source p of None \<Rightarrow> source old | Some v \<Rightarrow> v)"
proof -
  have af: "userJobs (applyFilters t) = userJobs t" "allJobs (applyFilters t) = allJobs t"
    "events (applyFilters t) = events t" for t
    by (simp_all add: applyFilters_def Let_def)
  have afu: "filteredJobs (applyFilters (t\<lparr>userJobs := u, store := st\<rparr>)) = filteredJobs (applyFilters t)" for t u st
    by (simp add: applyFilters_def Let_def)
  note fi = findIndex_job_none [of jid "userJobs s"] findIndex_job_none [of jid "allJobs s"]
    findIndex_nat_less [of "\<lambda>j. job_id j = jid" "userJobs s"]
    findIndex_nat_less [of "\<lambda>j. job_id j = jid" "allJobs s"]
    findIndex_found [of "\<lambda>j. job_id j = jid" "userJobs s"]
    findIndex_found [of "\<lambda>j. job_id j = jid" "allJobs s"]
  show ?thesis
    using fi
    apply (intro conjI impI)
            apply (simp_all add: updateJob_def Let_def af emit_def emitted_def mergeJob_def split: prod.splits)
    done
qed

lemma posted_fields:
  "job_id ` set (userJobs posted) = {posted_id}"
  "job_id ` set (allJobs posted) = {''mock_1'', posted_id}"
  by (simp_all add: posted_def posted_id_def addJob_def Let_def emit_def applyFilters_def
      one_job_fields) (simp_all add: mock_1_def)

lemma posted_id_not_mock: "posted_id \<noteq> ''mock_1''" "posted_id \<noteq> ''nope''"
  by (simp_all add: posted_id_def)

theorem updateJob_cases_witness:
  "''nope'' \<notin> job_id ` set (userJobs posted) \<and> ''nope'' \<notin> job_id ` set (allJobs posted) \<and>
   userJobs (updateJob 2000 ''nope'' retitle posted) = userJobs posted \<and>
   allJobs (updateJob 2000 ''nope'' retitle posted) = allJobs posted \<and>
   updateJob 2000 ''nope'' retitle posted =
     emit (JobsUpdated (filteredJobs (applyFilters posted)))
       (emit (JobUpdated None) (applyFilters posted)) \<and>
   emitted posted (updateJob 2000 ''nope'' retitle posted) =
     [JobUpdated None, JobsUpdated (filteredJobs (applyFilters posted))] \<and>
   posted_id \<in> job_id ` set (userJobs posted) \<and> posted_id \<in> job_id ` set (allJobs posted) \<and>
   userJobs (updateJob 2000 posted_id retitle posted) =
     (userJobs posted)[nat (findIndex (\<lambda>j. job_id j = posted_id) (userJobs posted)) :=
        mergeJob (userJobs posted ! nat (findIndex (\<lambda>j. job_id j = posted_id) (userJobs posted)))
          retitle 2000] \<and>
   allJobs (updateJob 2000 posted_id retitle posted) =
     (allJobs posted)[nat (findIndex (\<lambda>j. job_id j = posted_id) (allJobs posted)) :=
        mergeJob (userJobs posted ! nat (findIndex (\<lambda>j. job_id j = posted_id) (userJobs posted)))
          retitle 2000] \<and>
   p_title retitle = Some ''Senior Frontend Developer'' \<and>
   title (mergeJob mock_1 retitle 2000) = ''Senior Frontend Developer'' \<and>
   p_title emptyPatch = None \<and>
   title (mergeJob mock_1 emptyPatch 2000) = title mock_1"
proof -
  have n: "''nope'' \<notin> job_id ` set (userJobs posted)" "''nope'' \<notin> job_id ` set (allJobs posted)"
    using posted_id_not_mock by (simp_all add: posted_fields)
  have y: "posted_id \<in> job_id ` set (userJobs posted)" "posted_id \<in> job_id ` set (allJobs posted)"
    by (simp_all add: posted_fields)
  have p: "p_title retitle = Some ''Senior Frontend Developer''" "p_title emptyPatch = None"
    by (simp_all add: retitle_def emptyPatch_def)
  note absent = updateJob_cases [of "''nope''" posted 2000 retitle mock_1 "''Senior Frontend Developer''"]
  note found = updateJob_cases [of posted_id posted 2000 retitle mock_1 "''Senior Frontend Developer''"]
  note kept = updateJob_cases [of posted_id posted 2000 emptyPatch mock_1 "''Senior Frontend Developer''"]
  have 1: "userJobs (updateJob 2000 ''nope'' retitle posted) = userJobs posted"
    "allJobs (updateJob 2000 ''nope'' retitle posted) = allJobs posted"
    "updateJob 2000 ''nope'' retitle posted =
       emit (JobsUpdated (filteredJobs (applyFilters posted)))
         (emit (JobUpdated None) (applyFilters posted))"
    "emitted posted (updateJob 2000 ''nope'' retitle posted) =
       [JobUpdated None, JobsUpdated (filteredJobs (applyFilters posted))]"
    using absent n by blast+
  have 2: "userJobs (updateJob 2000 posted_id retitle posted) =
     (userJobs posted)[nat (findIndex (\<lambda>j. job_id j = posted_id) (userJobs posted)) :=
        mergeJob (userJobs posted ! nat (findIndex (\<lambda>j. job_id j = posted_id) (userJobs posted)))
          retitle 2000]"
    using found y by blast
  have "allJobs (updateJob 2000 posted_id retitle posted) =
     (allJobs posted)[nat (findIndex (\<lambda>j. job_id j = posted_id) (allJobs posted)) :=
        mergeJob (if posted_id \<in> job_id ` set (userJobs posted)
              then userJobs posted ! nat (findIndex (\<lambda>j. job_id j = posted_id) (userJobs posted))
              else allJobs posted ! nat (findIndex (\<lambda>j. job_id j = posted_id) (allJobs posted)))
          retitle 2000]"
    using found y by blast
  then have 3: "allJobs (updateJob 2000 posted_id retitle posted) =
     (allJobs posted)[nat (findIndex (\<lambda>j. job_id j = posted_id) (allJobs posted)) :=
        mergeJob (userJobs posted ! nat (findIndex (\<lambda>j. job_id j = posted_id) (userJobs posted)))
          retitle 2000]"
    using y by simp
  have 4: "title (mergeJob mock_1 retitle 2000) = ''Senior Frontend Developer''"
    using found p by blast
  have 5: "title (mergeJob mock_1 emptyPatch 2000) = title mock_1"
    using kept p by blast
  from n y p 1 2 3 4 5 show ?thesis by blast
qed

section \<open>Filtering and sorting\<close>

lemma set_sort_insert: "set (sort_insert cmp x xs) = insert x (set xs)"
  by (induction xs) auto

lemma mset_sort_insert: "mset (sort_insert cmp x xs) = add_mset x (mset xs)"
  by (induction xs) auto

lemma mset_array_sort: "mset (array_sort cmp xs) = mset xs"
  by (induction xs) (auto simp: mset_sort_insert)

lemma sorted_sort_insert:
  assumes total: "\<And>a b. le a b \<or> le b a"
    and trans: "\<And>a b c. le a b \<Longrightarrow> le b c \<Longrightarrow> le a c"
    and cmp: "\<And>a b. js_positive (cmp a b) \<longleftrightarrow> \<not> le a b"
  shows "sorted_wrt le xs \<Longrightarrow> sorted_wrt le (sort_insert cmp x xs)"
proof (induction xs)
  case Nil
  show ?case by simp
next
  case (Cons y ys)
  show ?case
  proof (cases "le x y")
    case True
    then have "\<forall>z\<in>set ys. le x z"
      using Cons.prems trans by auto
    with True Cons.prems show ?thesis
      by (simp add: cmp)
  next
    case False
    then have "le y x" using total by blast
    with False Cons show ?thesis
      by (auto simp: cmp set_sort_insert)
  qed
qed

lemma sorted_array_sort:
  assumes total: "\<And>a b. le a b \<or> le b a"
    and trans: "\<And>a b c. le a b \<Longrightarrow> le b c \<Longrightarrow> le a c"
    and cmp: "\<And>a b. js_positive (cmp a b) \<longleftrightarrow> \<not> le a b"
  shows "sorted_wrt le (array_sort cmp xs)"
proof (induction xs)
  case Nil
  show ?case by simp
next
  case (Cons x xs)
  then show ?case
    using sorted_sort_insert [of le cmp "array_sort cmp xs" x] total trans cmp
    by simp
qed

lemma avgSalary_high:
  "avgSalary (Num 0) j = Num (case nonzeroAverage j of None \<Rightarrow> 0 | Some x \<Rightarrow> x)"
  by (auto simp: avgSalary_def nonzeroAverage_def truthy_salary_def split: option.splits)

lemma avgSalary_low:
  "avgSalary PosInf j = (case nonzeroAverage j of None \<Rightarrow> PosInf | Some x \<Rightarrow> Num x)"
  by (auto simp: avgSalary_def nonzeroAverage_def truthy_salary_def split: option.splits)

lemma high_cmp:
  "js_positive (sortComparator ''salary_high'' a b) \<longleftrightarrow> \<not> salary_desc a b"
  by (auto simp: sortComparator_def avgSalary_high salary_desc_def)

lemma low_cmp:
  "js_positive (sortComparator ''salary_low'' a b) \<longleftrightarrow> \<not> salary_asc a b"
  by (auto simp: sortComparator_def avgSalary_low salary_asc_def split: option.splits)

lemma salary_desc_sorted: "sorted_wrt salary_desc (array_sort (sortComparator ''salary_high'') xs)"
proof (rule sorted_array_sort)
  show "salary_desc a b \<or> salary_desc b a" for a b
    by (auto simp: salary_desc_def)
  show "salary_desc a b \<Longrightarrow> salary_desc b c \<Longrightarrow> salary_desc a c" for a b c
    by (auto simp: salary_desc_def)
  show "js_positive (sortComparator ''salary_high'' a b) \<longleftrightarrow> \<not> salary_desc a b" for a b
    by (rule high_cmp)
qed

lemma salary_asc_sorted: "sorted_wrt salary_asc (array_sort (sortComparator ''salary_low'') xs)"
proof (rule sorted_array_sort)
  show "salary_asc a b \<or> salary_asc b a" for a b
    by (auto simp: salary_asc_def split: option.splits)
  show "salary_asc a b \<Longrightarrow> salary_asc b c \<Longrightarrow> salary_asc a c" for a b c
    by (auto simp: salary_asc_def split: option.splits)
  show "js_positive (sortComparator ''salary_low'' a b) \<longleftrightarrow> \<not> salary_asc a b" for a b
    by (rule low_cmp)
qed

lemma applyFilters_view:
  "filteredJobs (applyFilters s) =
     array_sort (sortComparator (sort_flt (filters s)))
       (filter (\<lambda>j.
          (search (filters s) = [] \<or>
             sublist (toLowerCase (search (filters s))) (toLowerCase (title j)) \<or>
             sublist (toLowerCase (search (filters s))) (toLowerCase (company j)) \<or>
             sublist (toLowerCase (search (filters s))) (toLowerCase (description j))) \<and>
          (\<not> remoteOnly (filters s) \<or> is_remote_work j) \<and>
          (category (filters s) = [] \<or> job_category j = category (filters s)) \<and>
          (location_flt (filters s) = [] \<or>
             sublist (toLowerCase (location_flt (filters s))) (toLowerCase (location j))))
        (allJobs s))"
  by (auto simp: applyFilters_def Let_def searchMatches_def str_includes_def
      intro!: arg_cong [where f = "array_sort _"] filter_cong)

lemma abc_high:
  "filteredJobs (applyFilters (abc_store ''salary_high'')) = [job_C, job_A, job_B]"
  by (simp add: applyFilters_def abc_store_def Let_def defaultFilters_def constructor_def
      init_def sortComparator_def avgSalary_def truthy_salary_def job_A_def job_B_def job_C_def
      mock_1_def)

lemma abc_low:
  "filteredJobs (applyFilters (abc_store ''salary_low'')) = [job_A, job_C, job_B]"
  by (simp add: applyFilters_def abc_store_def Let_def defaultFilters_def constructor_def
      init_def sortComparator_def avgSalary_def truthy_salary_def job_A_def job_B_def job_C_def
      mock_1_def)

text \<open>
  Claim C2. After \<^verbatim>\<open>applyFilters\<close>, \<^verbatim>\<open>getFilteredJobs\<close> returns exactly the jobs of the
  collection that satisfy all four filters: the search is empty or its lowercased term
  occurs in the lowercased title, company or description (the case-insensitive match);
  \<open>remoteOnly\<close> is off or the job is remote; the category is empty or equals the job's
  category exactly; the location is empty or occurs, lowercased, in the lowercased
  location of the job. The view is that selection sorted, so it has the same jobs with the
  same multiplicities; the same holds after \<^verbatim>\<open>setAllJobs\<close> and \<^verbatim>\<open>setFilters\<close>.
\<close>

theorem getFilteredJobs_conjunction:
  "getFilteredJobs (applyFilters s) =
     array_sort (sortComparator (sort_flt (filters s)))
       (filter (matchesAllFilters (filters s)) (allJobs s)) \<and>
   mset (getFilteredJobs (applyFilters s)) =
     mset (filter (matchesAllFilters (filters s)) (allJobs s)) \<and>
   set (getFilteredJobs (applyFilters s)) =
     {j \<in> set (allJobs s). matchesAllFilters (filters s) j} \<and>
   mset (getFilteredJobs (setAllJobs jobs s)) =
     mset (filter (matchesAllFilters (filters s)) jobs) \<and>
   mset (getFilteredJobs (setFilters fp s)) =
     mset (filter (matchesAllFilters (mergeFilters (filters s) fp)) (allJobs s))"
proof -
  have v: "filteredJobs (applyFilters t) =
     array_sort (sortComparator (sort_flt (filters t)))
       (filter (matchesAllFilters (filters t)) (allJobs t))" for t
    unfolding applyFilters_view [of t] matchesAllFilters_def ..
  have m: "mset (filteredJobs (applyFilters t)) =
     mset (filter (matchesAllFilters (filters t)) (allJobs t))" for t
    by (simp add: v mset_array_sort)
  have s: "set (filteredJobs (applyFilters s)) =
     {j \<in> set (allJobs s). matchesAllFilters (filters s) j}"
    using m [of s] by (metis set_filter set_mset_mset)
  have a: "filteredJobs (setAllJobs jobs s) = filteredJobs (applyFilters (s\<lparr>allJobs := jobs\<rparr>))"
    by (simp add: setAllJobs_def Let_def emit_def)
  have f: "filteredJobs (setFilters fp s) =
     filteredJobs (applyFilters (s\<lparr>currentPage := 1, filters := mergeFilters (filters s) fp,
        store := (store s)\<lparr>FILTERS := Some (mergeFilters (filters s) fp)\<rparr>\<rparr>))"
    by (simp add: setFilters_def Let_def emit_def)
  have c1: "getFilteredJobs (applyFilters s) =
     array_sort (sortComparator (sort_flt (filters s)))
       (filter (matchesAllFilters (filters s)) (allJobs s))"
    unfolding getFilteredJobs_def by (rule v)
  have c2: "mset (getFilteredJobs (applyFilters s)) =
     mset (filter (matchesAllFilters (filters s)) (allJobs s))"
    unfolding getFilteredJobs_def by (rule m)
  have c3: "set (getFilteredJobs (applyFilters s)) =
     {j \<in> set (allJobs s). matchesAllFilters (filters s) j}"
    unfolding getFilteredJobs_def by (rule s)
  have c4: "mset (getFilteredJobs (setAllJobs jobs s)) =
     mset (filter (matchesAllFilters (filters s)) jobs)"
    unfolding getFilteredJobs_def a using m [of "s\<lparr>allJobs := jobs\<rparr>"] by simp
  have c5: "mset (getFilteredJobs (setFilters fp s)) =
     mset (filter (matchesAllFilters (mergeFilters (filters s) fp)) (allJobs s))"
    unfolding getFilteredJobs_def f
    using m [of "s\<lparr>currentPage := 1, filters := mergeFilters (filters s) fp,
        store := (store s)\<lparr>FILTERS := Some (mergeFilters (filters s) fp)\<rparr>\<rparr>"]
    by simp
  from c1 c2 c3 c4 c5 show ?thesis by blast
qed

theorem getFilteredJobs_conjunction_witness:
  "getFilteredJobs (applyFilters dev_remote_store) = [mock_1] \<and>
   filter (matchesAllFilters (filters dev_remote_store)) (allJobs dev_remote_store) = [mock_1] \<and>
   \<not> matchesAllFilters (filters dev_remote_store) onsite_dev \<and>
   \<not> matchesAllFilters (filters dev_remote_store) remote_chef"
proof -
  have e: "filter (matchesAllFilters (filters dev_remote_store)) (allJobs dev_remote_store) = [mock_1]"
    by code_simp
  have n: "\<not> matchesAllFilters (filters dev_remote_store) onsite_dev"
    "\<not> matchesAllFilters (filters dev_remote_store) remote_chef"
    by code_simp+
  have "getFilteredJobs (applyFilters dev_remote_store) =
     array_sort (sortComparator (sort_flt (filters dev_remote_store))) [mock_1]"
    using getFilteredJobs_conjunction [of dev_remote_store] e by simp
  then have "getFilteredJobs (applyFilters dev_remote_store) = [mock_1]"
    by simp
  with e n show ?thesis by blast
qed

lemma set_array_sort: "set (array_sort cmp xs) = set xs"
  using mset_array_sort [of cmp xs] by (rule mset_eq_setD)

lemma view_subset: "set (filteredJobs (applyFilters s)) \<subseteq> set (allJobs s)"
  unfolding applyFilters_view by (auto simp: set_array_sort)

lemma nonzero_is_average:
  "salary_from j \<noteq> Some 0 \<Longrightarrow> salary_to j \<noteq> Some 0 \<Longrightarrow> nonzeroAverage j = averageSalary j"
  by (auto simp: nonzeroAverage_def averageSalary_def split: option.splits)

lemma sorted_as_specified:
  assumes nz: "\<forall>j\<in>set (allJobs s). salary_from j \<noteq> Some 0 \<and> salary_to j \<noteq> Some 0"
  shows "sorted_wrt salary_desc (filteredJobs (applyFilters s)) \<Longrightarrow>
         sorted_wrt spec_salary_desc (filteredJobs (applyFilters s))"
    and "sorted_wrt salary_asc (filteredJobs (applyFilters s)) \<Longrightarrow>
         sorted_wrt spec_salary_asc (filteredJobs (applyFilters s))"
proof -
  have e: "nonzeroAverage j = averageSalary j" if "j \<in> set (filteredJobs (applyFilters s))" for j
    using that nz view_subset [of s] by (auto intro: nonzero_is_average)
  have d: "spec_salary_desc x y"
    if "x \<in> set (filteredJobs (applyFilters s))" "y \<in> set (filteredJobs (applyFilters s))"
      "salary_desc x y" for x y
    using that e [of x] e [of y]
    by (auto simp: salary_desc_def spec_salary_desc_def split: option.splits)
  have a: "spec_salary_asc x y"
    if "x \<in> set (filteredJobs (applyFilters s))" "y \<in> set (filteredJobs (applyFilters s))"
      "salary_asc x y" for x y
    using that e [of x] e [of y]
    by (auto simp: salary_asc_def spec_salary_asc_def split: option.splits)
  show "sorted_wrt salary_desc (filteredJobs (applyFilters s)) \<Longrightarrow>
         sorted_wrt spec_salary_desc (filteredJobs (applyFilters s))"
    by (rule sorted_wrt_mono_rel [where P = salary_desc]) (auto intro: d)
  show "sorted_wrt salary_asc (filteredJobs (applyFilters s)) \<Longrightarrow>
         sorted_wrt spec_salary_asc (filteredJobs (applyFilters s))"
    by (rule sorted_wrt_mono_rel [where P = salary_asc]) (auto intro: a)
qed

lemma abc_no_zero:
  "\<forall>j\<in>set (allJobs (abc_store srt)). salary_from j \<noteq> Some 0 \<and> salary_to j \<noteq> Some 0"
  by (simp add: abc_store_def job_A_def job_B_def job_C_def mock_1_def)

lemma zero_bound_views:
  "filteredJobs (applyFilters zero_bound_high) = [job_A, job_Z]"
  "filteredJobs zero_bound_high = [job_A, job_Z]"
  "filteredJobs (applyFilters zero_bound_low) = [job_A, job_Y]"
  "filteredJobs zero_bound_low = [job_A, job_Y]"
  by code_simp+

lemma zero_bound_sorts:
  "sort_flt (filters zero_bound_high) = ''salary_high''"
  "sort_flt (filters zero_bound_low) = ''salary_low''"
  by code_simp+

lemma zero_bound_averages:
  "averageSalary job_A = Some 60000" "averageSalary job_Z = Some 100000"
  "averageSalary job_Y = Some 10000"
  by (simp_all add: averageSalary_def job_A_def job_Z_def job_Y_def mock_1_def)

text \<open>
  Claim C3, as the code has it. Under the sort \<^verbatim>\<open>salary_high\<close> the filtered view is ordered
  descending by the average \<open>(salary_from + salary_to) / 2\<close>, a job with a bound that is
  missing or \<open>0\<close> counted as average \<open>0\<close>; under \<^verbatim>\<open>salary_low\<close> it is ordered ascending by
  the same average, such a job counted as \<open>+\<infinity>\<close>. When no job of the collection has a
  bound of \<open>0\<close>, these are the orders of the specification, where only a missing bound
  counts. For the jobs A (50k to 70k), B (no salary) and C (100k to 120k), \<^verbatim>\<open>salary_high\<close>
  yields \<open>[C, A, B]\<close> and \<^verbatim>\<open>salary_low\<close> yields \<open>[A, C, B]\<close>.
\<close>

theorem salary_sort_order:
  "(sort_flt (filters s) = ''salary_high'' \<longrightarrow>
      sorted_wrt salary_desc (getFilteredJobs (applyFilters s))) \<and>
   (sort_flt (filters s) = ''salary_low'' \<longrightarrow>
      sorted_wrt salary_asc (getFilteredJobs (applyFilters s))) \<and>
   ((\<forall>j\<in>set (allJobs s). salary_from j \<noteq> Some 0 \<and> salary_to j \<noteq> Some 0) \<longrightarrow>
      (sort_flt (filters s) = ''salary_high'' \<longrightarrow>
         sorted_wrt spec_salary_desc (getFilteredJobs (applyFilters s))) \<and>
      (sort_flt (filters s) = ''salary_low'' \<longrightarrow>
         sorted_wrt spec_salary_asc (getFilteredJobs (applyFilters s)))) \<and>
   getFilteredJobs (applyFilters (abc_store ''salary_high'')) = [job_C, job_A, job_B] \<and>
   getFilteredJobs (applyFilters (abc_store ''salary_low'')) = [job_A, job_C, job_B]"
proof -
  have hi: "sort_flt (filters s) = ''salary_high'' \<longrightarrow>
      sorted_wrt salary_desc (getFilteredJobs (applyFilters s))"
    unfolding getFilteredJobs_def applyFilters_view by (simp add: salary_desc_sorted)
  have lo: "sort_flt (filters s) = ''salary_low'' \<longrightarrow>
      sorted_wrt salary_asc (getFilteredJobs (applyFilters s))"
    unfolding getFilteredJobs_def applyFilters_view by (simp add: salary_asc_sorted)
  have sp: "(\<forall>j\<in>set (allJobs s). salary_from j \<noteq> Some 0 \<and> salary_to j \<noteq> Some 0) \<longrightarrow>
      (sort_flt (filters s) = ''salary_high'' \<longrightarrow>
         sorted_wrt spec_salary_desc (getFilteredJobs (applyFilters s))) \<and>
      (sort_flt (filters s) = ''salary_low'' \<longrightarrow>
         sorted_wrt spec_salary_asc (getFilteredJobs (applyFilters s)))"
    using hi lo sorted_as_specified [of s] unfolding getFilteredJobs_def by blast
  have ex: "getFilteredJobs (applyFilters (abc_store ''salary_high'')) = [job_C, job_A, job_B]"
    "getFilteredJobs (applyFilters (abc_store ''salary_low'')) = [job_A, job_C, job_B]"
    unfolding getFilteredJobs_def by (rule abc_high, rule abc_low)
  from hi lo sp ex show ?thesis by blast
qed

theorem salary_sort_order_witness:
  "sort_flt (filters (abc_store ''salary_high'')) = ''salary_high'' \<and>
   sorted_wrt salary_desc [job_C, job_A, job_B] \<and>
   sorted_wrt spec_salary_desc [job_C, job_A, job_B] \<and>
   sort_flt (filters (abc_store ''salary_low'')) = ''salary_low'' \<and>
   sorted_wrt salary_asc [job_A, job_C, job_B] \<and>
   sorted_wrt spec_salary_asc [job_A, job_C, job_B] \<and>
   sort_flt (filters zero_bound_high) = ''salary_high'' \<and>
   sorted_wrt salary_desc [job_A, job_Z]"
proof -
  have h: "sort_flt (filters (abc_store ''salary_high'')) = ''salary_high''"
    "sort_flt (filters (abc_store ''salary_low'')) = ''salary_low''"
    by (simp_all add: abc_store_def)
  note high = salary_sort_order [of "abc_store ''salary_high''"]
  note low = salary_sort_order [of "abc_store ''salary_low''"]
  have vh: "getFilteredJobs (applyFilters (abc_store ''salary_high'')) = [job_C, job_A, job_B]"
    and vl: "getFilteredJobs (applyFilters (abc_store ''salary_low'')) = [job_A, job_C, job_B]"
    using high by blast+
  have 1: "sorted_wrt salary_desc (getFilteredJobs (applyFilters (abc_store ''salary_high'')))"
    "sorted_wrt spec_salary_desc (getFilteredJobs (applyFilters (abc_store ''salary_high'')))"
    using h high abc_no_zero [of "''salary_high''"] by blast+
  have 2: "sorted_wrt salary_asc (getFilteredJobs (applyFilters (abc_store ''salary_low'')))"
    "sorted_wrt spec_salary_asc (getFilteredJobs (applyFilters (abc_store ''salary_low'')))"
    using h low abc_no_zero [of "''salary_low''"] by blast+
  have "sorted_wrt salary_desc (getFilteredJobs (applyFilters zero_bound_high))"
    using zero_bound_sorts salary_sort_order [of zero_bound_high] by blast
  then have 3: "sorted_wrt salary_desc [job_A, job_Z]"
    by (simp only: getFilteredJobs_def zero_bound_views)
  from 1 have hi: "sorted_wrt salary_desc [job_C, job_A, job_B]"
    "sorted_wrt spec_salary_desc [job_C, job_A, job_B]"
    by (simp_all only: vh)
  from 2 have lo: "sorted_wrt salary_asc [job_A, job_C, job_B]"
    "sorted_wrt spec_salary_asc [job_A, job_C, job_B]"
    by (simp_all only: vl)
  from h zero_bound_sorts hi lo 3 show ?thesis by blast
qed

text \<open>
  Claim C3 as stated fails for a job with a bound of \<open>0\<close>. In the reachable store that
  holds Z (0 to 200k, average 100k) and A (50k to 70k, average 60k), \<^verbatim>\<open>salary_high\<close> puts A
  before Z; in the one that holds A and Y (0 to 20k, average 10k), \<^verbatim>\<open>salary_low\<close> puts A
  before Y. Y and Z have both bounds, so neither is a job with a missing bound.
\<close>

theorem salary_sort_order_counterexample:
  "reachable zero_bound_high \<and>
   sort_flt (filters zero_bound_high) = ''salary_high'' \<and>
   getFilteredJobs zero_bound_high = [job_A, job_Z] \<and>
   getFilteredJobs (applyFilters zero_bound_high) = [job_A, job_Z] \<and>
   averageSalary job_A = Some 60000 \<and>
   averageSalary job_Z = Some 100000 \<and>
   \<not> sorted_wrt spec_salary_desc (getFilteredJobs (applyFilters zero_bound_high)) \<and>
   reachable zero_bound_low \<and>
   sort_flt (filters zero_bound_low) = ''salary_low'' \<and>
   getFilteredJobs zero_bound_low = [job_A, job_Y] \<and>
   getFilteredJobs (applyFilters zero_bound_low) = [job_A, job_Y] \<and>
   averageSalary job_Y = Some 10000 \<and>
   \<not> sorted_wrt spec_salary_asc (getFilteredJobs (applyFilters zero_bound_low))"
proof -
  have r: "reachable zero_bound_high" "reachable zero_bound_low"
    unfolding zero_bound_high_def zero_bound_low_def
    by (intro r_setFilters r_setAllJobs r_new)+
  have n: "\<not> sorted_wrt spec_salary_desc [job_A, job_Z]"
    "\<not> sorted_wrt spec_salary_asc [job_A, job_Y]"
    by (simp_all add: spec_salary_desc_def spec_salary_asc_def zero_bound_averages)
  show ?thesis
    using r n zero_bound_sorts zero_bound_averages
    by (simp add: getFilteredJobs_def zero_bound_views)
qed

section \<open>The current page when the job set shrinks\<close>

lemma reachable_on_page_2: "reachable on_page_2"
  unfolding on_page_2_def by (intro r_setPage r_setAllJobs r_new)

lemma on_page_2_fields:
  "currentPage on_page_2 = 2" "length (filteredJobs on_page_2) = 10"
  "filters on_page_2 = defaultFilters"
  by code_simp+

lemma after_delete_fields:
  "length (filteredJobs (deleteJob ''j'' on_page_2)) = 9"
  "length (filteredJobs (setAllJobs (take 9 ten_jobs) on_page_2)) = 9"
  by code_simp+

lemma ceil_10_9: "\<lceil>(10::rat) / 9\<rceil> = 2"
  by (rule ceiling_unique) simp_all

lemma applyFilters_page: "currentPage (applyFilters s) = currentPage s"
  by (simp add: applyFilters_def Let_def)

lemma job_mutations_keep_page:
  "currentPage (deleteJob jid s) = currentPage s"
  "currentPage (setAllJobs jobs s) = currentPage s"
  "currentPage (snd (addJob now rnd d s)) = currentPage s"
  "currentPage (updateJob now jid p s) = currentPage s"
  by (simp_all add: deleteJob_def setAllJobs_def addJob_def updateJob_def Let_def emit_def
      applyFilters_page split: prod.splits)

lemma filter_changes_reset_page:
  "currentPage (setFilters fp s) = 1" "currentPage (resetFilters s) = 1"
  by (simp_all add: setFilters_def resetFilters_def Let_def emit_def applyFilters_page)

text \<open>
  Claim C10. \<^verbatim>\<open>deleteJob\<close> and \<^verbatim>\<open>setAllJobs\<close> never change the current page, while
  \<^verbatim>\<open>setFilters\<close> and \<^verbatim>\<open>resetFilters\<close> reset it to 1 (as does \<^verbatim>\<open>init\<close>, which also restores
  the filters). So the invariant \<open>1 \<le> currentPage \<le> totalPages\<close> is not preserved: in the
  reachable store with ten jobs on page 2 it holds, and after \<^verbatim>\<open>deleteJob\<close> of the tenth job,
  or after \<^verbatim>\<open>setAllJobs\<close> with the first nine, \<^verbatim>\<open>getPaginationInfo\<close> reports page 2 of 1 with
  9 items and \<^verbatim>\<open>getPaginatedJobs\<close> returns the empty slice.
\<close>

theorem page_not_clamped:
  "currentPage (deleteJob jid s) = currentPage s \<and>
   currentPage (setAllJobs jobs s) = currentPage s \<and>
   currentPage (setFilters fp s) = 1 \<and>
   currentPage (resetFilters s) = 1 \<and>
   reachable on_page_2 \<and>
   1 \<le> currentPage on_page_2 \<and>
   currentPage on_page_2 \<le> totalPages (getPaginationInfo on_page_2) \<and>
   pi_currentPage (getPaginationInfo (deleteJob ''j'' on_page_2)) = 2 \<and>
   totalPages (getPaginationInfo (deleteJob ''j'' on_page_2)) = 1 \<and>
   totalItems (getPaginationInfo (deleteJob ''j'' on_page_2)) = 9 \<and>
   getPaginatedJobs (deleteJob ''j'' on_page_2) = [] \<and>
   reachable (deleteJob ''j'' on_page_2) \<and>
   pi_currentPage (getPaginationInfo (setAllJobs (take 9 ten_jobs) on_page_2)) = 2 \<and>
   totalPages (getPaginationInfo (setAllJobs (take 9 ten_jobs) on_page_2)) = 1 \<and>
   totalItems (getPaginationInfo (setAllJobs (take 9 ten_jobs) on_page_2)) = 9 \<and>
   getPaginatedJobs (setAllJobs (take 9 ten_jobs) on_page_2) = []"
proof -
  have t2: "totalPages (getPaginationInfo on_page_2) = 2"
    by (simp add: totalPages_eq on_page_2_fields ceil_10_9)
  have d: "pi_currentPage (getPaginationInfo (deleteJob ''j'' on_page_2)) = 2"
    "totalPages (getPaginationInfo (deleteJob ''j'' on_page_2)) = 1"
    "totalItems (getPaginationInfo (deleteJob ''j'' on_page_2)) = 9"
    by (simp_all add: totalPages_eq after_delete_fields)
      (simp_all add: getPaginationInfo_def Let_def job_mutations_keep_page on_page_2_fields
        after_delete_fields)
  have a: "pi_currentPage (getPaginationInfo (setAllJobs (take 9 ten_jobs) on_page_2)) = 2"
    "totalPages (getPaginationInfo (setAllJobs (take 9 ten_jobs) on_page_2)) = 1"
    "totalItems (getPaginationInfo (setAllJobs (take 9 ten_jobs) on_page_2)) = 9"
    by (simp_all add: totalPages_eq after_delete_fields)
      (simp_all add: getPaginationInfo_def Let_def job_mutations_keep_page on_page_2_fields
        after_delete_fields)
  have pd: "getPaginatedJobs (deleteJob ''j'' on_page_2) = []"
    unfolding getPaginatedJobs_def Let_def
    by (rule slice_beyond)
      (simp_all add: job_mutations_keep_page on_page_2_fields after_delete_fields itemsPerPage_def)
  have pa: "getPaginatedJobs (setAllJobs (take 9 ten_jobs) on_page_2) = []"
    unfolding getPaginatedJobs_def Let_def
    by (rule slice_beyond)
      (simp_all add: job_mutations_keep_page on_page_2_fields after_delete_fields itemsPerPage_def)
  have r: "reachable (deleteJob ''j'' on_page_2)"
    by (intro r_deleteJob reachable_on_page_2)
  show ?thesis
    using t2 d a pd pa r reachable_on_page_2
    by (simp add: job_mutations_keep_page filter_changes_reset_page on_page_2_fields)
qed

theorem page_not_clamped_witness:
  "currentPage (deleteJob ''j'' on_page_2) = currentPage on_page_2 \<and>
   currentPage (setAllJobs (take 9 ten_jobs) on_page_2) = currentPage on_page_2 \<and>
   currentPage (setFilters \<lparr>p_search = Some ''dev'', p_sort = None, p_remoteOnly = None,
      p_category = None, p_location_flt = None\<rparr> on_page_2) = 1 \<and>
   totalPages (getPaginationInfo (deleteJob ''j'' on_page_2)) = 1 \<and>
   getPaginatedJobs (deleteJob ''j'' on_page_2) = []"
  using page_not_clamped [of "''j''" on_page_2 "take 9 ten_jobs"
      "\<lparr>p_search = Some ''dev'', p_sort = None, p_remoteOnly = None,
        p_category = None, p_location_flt = None\<rparr>"]
  by blast

section \<open>Export and import\<close>

lemma applyFilters_keeps:
  "userRole (applyFilters s) = userRole s" "theme (applyFilters s) = theme s"
  "store (applyFilters s) = store s"
  by (simp_all add: applyFilters_def Let_def)

lemma valid_constructor:
  assumes "case USER_ROLE sto of None \<Rightarrow> True | Some r \<Rightarrow> validRole r"
    and "case THEME sto of None \<Rightarrow> True | Some t \<Rightarrow> validTheme t"
  shows "role_theme_valid (constructor sto)" "role_theme_valid (init sto evs)"
  using assms
  by (auto simp: role_theme_valid_def constructor_def init_def stored_or_def validRole_def
      validTheme_def split: option.splits)

lemma valid_emit: "role_theme_valid (emit e s) = role_theme_valid s"
  by (simp add: role_theme_valid_def emit_def)

lemma valid_setUserRole: "role_theme_valid s \<Longrightarrow> setUserRole r s = Inr s' \<Longrightarrow> role_theme_valid s'"
  by (auto simp: setUserRole_def role_theme_valid_def emit_def validRole_def split: if_splits)

lemma valid_setTheme: "role_theme_valid s \<Longrightarrow> role_theme_valid (setTheme t s)"
  by (auto simp: setTheme_def role_theme_valid_def emit_def validTheme_def)

lemma valid_setAllJobs: "role_theme_valid s \<Longrightarrow> role_theme_valid (setAllJobs jobs s)"
  by (simp add: setAllJobs_def Let_def valid_emit)
    (simp add: role_theme_valid_def applyFilters_keeps)

lemma valid_addJob: "role_theme_valid s \<Longrightarrow> role_theme_valid (snd (addJob now rnd d s))"
  by (simp add: addJob_def Let_def valid_emit)
    (simp add: role_theme_valid_def applyFilters_keeps)

lemma valid_updateJob: "role_theme_valid s \<Longrightarrow> role_theme_valid (updateJob now jid p s)"
  by (simp add: updateJob_def Let_def valid_emit split: prod.splits)
    (auto simp: role_theme_valid_def applyFilters_keeps)

lemma valid_deleteJob: "role_theme_valid s \<Longrightarrow> role_theme_valid (deleteJob jid s)"
  by (simp add: deleteJob_def Let_def valid_emit)
    (simp add: role_theme_valid_def applyFilters_keeps)

lemma valid_applyForJob:
  "role_theme_valid s \<Longrightarrow> role_theme_valid (snd (applyForJob now rnd jid d s))"
  by (auto simp: applyForJob_def Let_def valid_emit split: option.splits)
    (simp add: role_theme_valid_def)

lemma valid_updateApplicationStatus:
  "role_theme_valid s \<Longrightarrow> role_theme_valid (updateApplicationStatus aid st s)"
  by (auto simp: updateApplicationStatus_def Let_def valid_emit)
    (simp add: role_theme_valid_def)

lemma valid_saveJob: "role_theme_valid s \<Longrightarrow> role_theme_valid (saveJob jid s)"
  by (auto simp: saveJob_def Let_def valid_emit) (simp add: role_theme_valid_def)

lemma valid_unsaveJob: "role_theme_valid s \<Longrightarrow> role_theme_valid (unsaveJob jid s)"
  by (auto simp: unsaveJob_def Let_def valid_emit) (simp add: role_theme_valid_def)

lemma valid_setPage: "role_theme_valid s \<Longrightarrow> role_theme_valid (setPage p s)"
  by (auto simp: setPage_def Let_def valid_emit) (simp add: role_theme_valid_def)

lemma valid_setFilters: "role_theme_valid s \<Longrightarrow> role_theme_valid (setFilters fp s)"
  by (simp add: setFilters_def Let_def valid_emit)
    (simp add: role_theme_valid_def applyFilters_keeps)

lemma valid_resetFilters: "role_theme_valid s \<Longrightarrow> role_theme_valid (resetFilters s)"
  by (simp add: resetFilters_def Let_def valid_emit)
    (simp add: role_theme_valid_def applyFilters_keeps)

lemma valid_clearAllData: "role_theme_valid (clearAllData s)"
  by (simp add: clearAllData_def valid_emit valid_constructor emptyStorage_def)

lemma valid_import_tail:
  "role_theme_valid s \<Longrightarrow>
   role_theme_valid (s\<lparr>applications := a, store := (store s)\<lparr>APPLICATIONS := Some a\<rparr>\<rparr>) \<and>
   role_theme_valid (s\<lparr>userJobs := u, store := (store s)\<lparr>USER_JOBS := Some u\<rparr>\<rparr>) \<and>
   role_theme_valid (s\<lparr>savedJobs := v, store := (store s)\<lparr>SAVED_JOBS := Some v\<rparr>\<rparr>) \<and>
   role_theme_valid (s\<lparr>filters := f, store := (store s)\<lparr>FILTERS := Some f\<rparr>\<rparr>)"
  by (simp add: role_theme_valid_def)

lemma valid_importData: "role_theme_valid s \<Longrightarrow> role_theme_valid (snd (importData data s))"
proof -
  assume v: "role_theme_valid s"
  show ?thesis
  proof (cases "case b_userRole data of
              Some r \<Rightarrow> if r \<noteq> [] then setUserRole r s else Inr s
            | None \<Rightarrow> Inr s")
    case (Inl e)
    with v show ?thesis by (simp add: importData_def)
  next
    case (Inr s1)
    with v have v1: "role_theme_valid s1"
      by (auto split: option.splits if_splits dest: valid_setUserRole)
    define s2 where "s2 = (case b_theme data of
                       Some t \<Rightarrow> if t \<noteq> [] then setTheme t s1 else s1
                     | None \<Rightarrow> s1)"
    have v2: "role_theme_valid s2"
      using v1 by (auto simp: s2_def valid_setTheme split: option.splits)
    define s3 where "s3 = (case b_applications data of
                       Some a \<Rightarrow> s2\<lparr>applications := a, store := (store s2)\<lparr>APPLICATIONS := Some a\<rparr>\<rparr>
                     | None \<Rightarrow> s2)"
    have v3: "role_theme_valid s3"
      using v2 valid_import_tail [of s2] by (auto simp: s3_def split: option.splits)
    define s4 where "s4 = (case b_userJobs data of
                       Some a \<Rightarrow> s3\<lparr>userJobs := a, store := (store s3)\<lparr>USER_JOBS := Some a\<rparr>\<rparr>
                     | None \<Rightarrow> s3)"
    have v4: "role_theme_valid s4"
      using v3 valid_import_tail [of s3] by (auto simp: s4_def split: option.splits)
    define s5 where "s5 = (case b_savedJobs data of
                       Some a \<Rightarrow> s4\<lparr>savedJobs := a, store := (store s4)\<lparr>SAVED_JOBS := Some a\<rparr>\<rparr>
                     | None \<Rightarrow> s4)"
    have v5: "role_theme_valid s5"
      using v4 valid_import_tail [of s4] by (auto simp: s5_def split: option.splits)
    define s6 where "s6 = (case b_filters data of
                       Some p \<Rightarrow> (let f = mergeFilters defaultFilters p
                                  in s5\<lparr>filters := f, store := (store s5)\<lparr>FILTERS := Some f\<rparr>\<rparr>)
                     | None \<Rightarrow> s5)"
    have v6: "role_theme_valid s6"
      using v5 valid_import_tail [of s5] by (auto simp: s6_def Let_def split: option.splits)
    have "snd (importData data s) = emit (DataImported data) s6"
      unfolding importData_def Inr s6_def s5_def s4_def s3_def s2_def
      by (simp only: Let_def sum.case snd_conv)
    with v6 show ?thesis by (simp add: valid_emit)
  qed
qed

lemma reachable_valid: "reachable s \<Longrightarrow> role_theme_valid s"
proof (induction rule: reachable.induct)
  case r_new
  show ?case by (simp add: valid_constructor emptyStorage_def)
next
  case (r_reload s)
  then have "role_theme_valid s" by simp
  then show ?case
    by (intro valid_constructor) (simp_all add: role_theme_valid_def)
next
  case (r_setUserRole s role s')
  then show ?case by (blast intro: valid_setUserRole)
qed (simp_all add: valid_setTheme valid_setAllJobs valid_addJob valid_updateJob valid_deleteJob
    valid_applyForJob valid_updateApplicationStatus valid_saveJob valid_unsaveJob valid_setPage
    valid_setFilters valid_resetFilters valid_clearAllData valid_importData)

lemma import_of_export:
  assumes "validRole (userRole s)" and "validTheme (theme s)"
  shows "fst (importData (exportData now s) t) = True"
    and "applications (snd (importData (exportData now s) t)) = applications s"
    and "userJobs (snd (importData (exportData now s) t)) = userJobs s"
    and "savedJobs (snd (importData (exportData now s) t)) = savedJobs s"
    and "filters (snd (importData (exportData now s) t)) = filters s"
    and "userRole (snd (importData (exportData now s) t)) = userRole s"
    and "theme (snd (importData (exportData now s) t)) = theme s"
    and "allJobs (snd (importData (exportData now s) t)) = allJobs t"
    and "filteredJobs (snd (importData (exportData now s) t)) = filteredJobs t"
    and "currentPage (snd (importData (exportData now s) t)) = currentPage t"
  using assms
  by (auto simp: importData_def exportData_def setUserRole_def setTheme_def emit_def Let_def
      validRole_def validTheme_def mergeFilters_def defaultFilters_def)

text \<open>
  Claim C6. For every reachable state \<open>s\<close> of the store, \<^verbatim>\<open>importData(exportData())\<close>
  returns \<^verbatim>\<open>true\<close> and leaves a store with the applications, user jobs, saved jobs,
  filters, role and theme of \<open>s\<close>, list for list, so no record is duplicated. This holds
  for the import into any store \<open>t\<close>: into \<open>s\<close> itself, or into a cleared one; the jobs, the
  filtered view and the page of \<open>t\<close> are not touched.
\<close>

theorem export_import_roundtrip:
  "reachable s \<Longrightarrow>
   fst (importData (exportData now s) t) = True \<and>
   applications (snd (importData (exportData now s) t)) = applications s \<and>
   userJobs (snd (importData (exportData now s) t)) = userJobs s \<and>
   savedJobs (snd (importData (exportData now s) t)) = savedJobs s \<and>
   filters (snd (importData (exportData now s) t)) = filters s \<and>
   userRole (snd (importData (exportData now s) t)) = userRole s \<and>
   theme (snd (importData (exportData now s) t)) = theme s \<and>
   allJobs (snd (importData (exportData now s) t)) = allJobs t \<and>
   filteredJobs (snd (importData (exportData now s) t)) = filteredJobs t \<and>
   currentPage (snd (importData (exportData now s) t)) = currentPage t"
proof -
  assume "reachable s"
  then have "role_theme_valid s" by (rule reachable_valid)
  then have v: "validRole (userRole s)" "validTheme (theme s)"
    by (simp_all add: role_theme_valid_def)
  show ?thesis
    by (intro conjI import_of_export [OF v])
qed

theorem export_import_roundtrip_witness:
  "reachable applied_once \<and>
   fst (importData (exportData 1700000000002 applied_once) (clearAllData applied_once)) = True \<and>
   applications (snd (importData (exportData 1700000000002 applied_once) (clearAllData applied_once)))
     = applications applied_once \<and>
   length (applications applied_once) = 1 \<and>
   applications (snd (importData (exportData 1700000000002 applied_once) applied_once))
     = applications applied_once"
proof -
  have r: "reachable applied_once"
    unfolding applied_once_def one_job_def by (intro r_applyForJob r_setAllJobs r_new)
  have l: "length (applications applied_once) = 1"
    using applied_once_facts by (simp add: getApplications_def)
  show ?thesis
    using r l export_import_roundtrip [OF r, of 1700000000002 "clearAllData applied_once"]
      export_import_roundtrip [OF r, of 1700000000002 applied_once]
    by simp
qed

section \<open>The normalizer\<close>

lemma is_dec_facts:
  assumes "is_dec c"
  shows "\<not> is_ws c" "c \<noteq> CHR ''-''" "c \<noteq> CHR ''+''" "c \<noteq> CHR ''x''" "c \<noteq> CHR ''X''"
    "digit_val 10 c = Some (of_char c - 48)"
  using assms by (auto simp: is_dec_def is_ws_def digit_val_def Let_def)

lemma is_dec_digit: "n < 10 \<Longrightarrow> is_dec (char_of (48 + (n::nat)))"
  by (simp add: is_dec_def)

lemma digit_val_digit: "n < 10 \<Longrightarrow> digit_val 10 (char_of (48 + (n::nat))) = Some n"
  by (simp add: digit_val_def Let_def)

lemma dec_nat_dec: "c \<in> set (dec_nat n) \<Longrightarrow> is_dec c"
proof (induction n rule: dec_nat.induct)
  case (1 n)
  show ?case
  proof (cases "n < 10")
    case True
    with "1.prems" show ?thesis
      by (simp add: dec_nat.simps [of n] is_dec_digit)
  next
    case False
    with "1.prems" "1.IH" show ?thesis
      by (auto simp: dec_nat.simps [of n] is_dec_digit)
  qed
qed

lemma dec_nat_nonempty: "dec_nat n \<noteq> []"
  by (simp add: dec_nat.simps [of n])

lemma digits_value_append:
  "\<forall>c\<in>set xs. digit_val R c \<noteq> None \<Longrightarrow>
   digits_value R acc (xs @ ys) = digits_value R (digits_value R acc xs) ys"
  by (induction xs arbitrary: acc) (auto split: option.splits)

lemma digits_value_dec_nat: "digits_value 10 0 (dec_nat n) = n"
proof (induction n rule: dec_nat.induct)
  case (1 n)
  show ?case
  proof (cases "n < 10")
    case True
    then show ?thesis
      by (simp add: dec_nat.simps [of n] digit_val_digit)
  next
    case False
    have d: "\<forall>c\<in>set (dec_nat (n div 10)). digit_val 10 c \<noteq> None"
      using dec_nat_dec is_dec_facts(6) by fastforce
    have m: "n mod 10 < 10" by simp
    from False "1.IH" show ?thesis
      by (simp add: dec_nat.simps [of n] digits_value_append [OF d] digit_val_digit [OF m])
  qed
qed

lemma no_hex_prefix:
  assumes "\<forall>c\<in>set s. is_dec c"
  shows "take 2 s \<noteq> ''0x''" "take 2 s \<noteq> ''0X''"
proof -
  have "\<not> is_dec CHR ''x''" "\<not> is_dec CHR ''X''"
    by (simp_all add: is_dec_def)
  moreover have "set (take 2 s) \<subseteq> set s"
    by (rule set_take_subset)
  ultimately show "take 2 s \<noteq> ''0x''" "take 2 s \<noteq> ''0X''"
    using assms by auto
qed

lemma parseInt_string_digits:
  assumes "s \<noteq> []" and d: "\<forall>c\<in>set s. is_dec c"
  shows "parseInt_string s = Some (int (digits_value 10 0 s))"
    and "parseInt_string (CHR ''-'' # s) = Some (- int (digits_value 10 0 s))"
proof -
  obtain c cs where s: "s = c # cs"
    using assms(1) by (cases s) auto
  have c: "is_dec c" using d s by simp
  have w: "dropWhile is_ws s = s"
    using is_dec_facts(1) [OF c] s by simp
  have m: "dropWhile is_ws (CHR ''-'' # s) = CHR ''-'' # s"
    by (simp add: is_ws_def)
  have h: "\<not> (take 2 s = ''0x'' \<or> take 2 s = ''0X'')"
    using no_hex_prefix [OF d] by simp
  have g: "digit_val 10 c \<noteq> None"
    using is_dec_facts(6) [OF c] by simp
  show "parseInt_string s = Some (int (digits_value 10 0 s))"
    unfolding parseInt_string_def w Let_def
    using h g is_dec_facts(2,3) [OF c]
    by (auto simp: s split: option.splits)
  show "parseInt_string (CHR ''-'' # s) = Some (- int (digits_value 10 0 s))"
    unfolding parseInt_string_def m Let_def
    using h g
    by (auto simp: s split: option.splits)
qed

lemma parseInt_string_dec_int:
  "parseInt_string (dec_int n) = Some n"
proof -
  have d: "\<forall>c\<in>set (dec_nat k). is_dec c" for k
    using dec_nat_dec by blast
  show ?thesis
  proof (cases "n < 0")
    case False
    then show ?thesis
      using parseInt_string_digits(1) [OF dec_nat_nonempty d, of "nat n"]
      by (simp add: dec_int_def digits_value_dec_nat)
  next
    case True
    then show ?thesis
      using parseInt_string_digits(2) [OF dec_nat_nonempty d, of "nat (- n)"]
      by (simp add: dec_int_def digits_value_dec_nat)
  qed
qed

lemma parseInt_values:
  "parseInt (JNum n) = Some n"
  "parseInt (JStr (dec_int n)) = Some n"
  "parseInt JUndefined = None"
  "parseInt JNull = None"
  "parseInt (JBool b) = None"
  "parseInt (JObj kvs) = None"
  "parseInt (JStr []) = None"
  by (simp_all add: parseInt_def parseInt_string_dec_int)
    (simp_all add: parseInt_string_def is_ws_def digit_val_def Let_def)

lemma body_not_null: "normalizeJob_body jp di clk job \<noteq> Inr JNull"
  by (cases job) (auto simp: normalizeJob_body_def Let_def)

lemma normalizeJobs_enumerate:
  "filter (\<lambda>job. job \<noteq> JNull)
     (map (\<lambda>(i, job). normalizeJob jp di (clks i) job) (enumerate n xs)) =
   concat (map (\<lambda>(i, job). case normalizeJob_body jp di (clks i) job of
                               Inl e \<Rightarrow> [] | Inr j \<Rightarrow> [j]) (enumerate n xs))"
proof (induction xs arbitrary: n)
  case Nil
  show ?case by simp
next
  case (Cons x xs)
  show ?case
    using body_not_null [of jp di "clks n" x] Cons.IH [of "Suc n"]
    by (cases "normalizeJob_body jp di (clks n) x") (simp_all add: normalizeJob_def)
qed

lemma length_concat_le:
  "length (concat (map (\<lambda>(i, job). case f i job of Inl e \<Rightarrow> [] | Inr j \<Rightarrow> [j]) ps)) \<le> length ps"
  by (induction ps) (auto split: sum.splits)

lemma qualifications_of:
  "job \<noteq> JNull \<Longrightarrow> job \<noteq> JUndefined \<Longrightarrow>
   read_prop (normalizeJob jp di clk job) ''qualifications'' =
     (let q = read_prop job ''qualifications'';
          r = (if truthy q
               then (case q of
                       JStr s \<Rightarrow> (case jp s of None \<Rightarrow> JArr [] | Some v \<Rightarrow> v)
                     | JArr xs \<Rightarrow> q
                     | _ \<Rightarrow> JArr [])
               else JArr [])
      in if isArray r then r else JArr [])"
  by (cases job) (auto simp: normalizeJob_def normalizeJob_body_def read_prop_def Let_def)

lemma fields_of:
  assumes "job \<noteq> JNull" "job \<noteq> JUndefined"
  shows "read_prop (normalizeJob jp di clk job) ''title'' =
           js_or (read_prop job ''title'') (JStr ''Untitled Position'')"
    and "read_prop (normalizeJob jp di clk job) ''salary_from'' =
           parseInt_or (read_prop job ''salary_from'') JNull"
    and "read_prop (normalizeJob jp di clk job) ''salary_to'' =
           parseInt_or (read_prop job ''salary_to'') JNull"
    and "read_prop (normalizeJob jp di clk job) ''number_of_opening'' =
           parseInt_or (read_prop job ''number_of_opening'') (JNum 1)"
  using assms
  by (cases job; simp add: normalizeJob_def normalizeJob_body_def read_prop_def Let_def)+

text \<open>
  Claim C7. \<^verbatim>\<open>normalizeJobs\<close> returns a list for every input and has no way to throw: an
  input that is not an array gives the empty list, and for an array the result holds, in
  order, the normalized records of exactly those elements whose normalization raises no
  exception, so it is at most as long as the input and holds no \<^verbatim>\<open>null\<close>. A record whose
  normalization raises (\<^verbatim>\<open>null\<close>: reading its property is a TypeError) is dropped. Every
  other record normalizes to an object whose qualifications are an array. When
  \<^verbatim>\<open>JSON.parse\<close> rejects the text \<^verbatim>\<open>{not valid json\<close>, a record with that text as its
  qualifications normalizes with \<open>qualifications = []\<close>; a record without title normalizes
  with the title \<^verbatim>\<open>Untitled Position\<close>.
\<close>

theorem normalizeJobs_total:
  "(\<not> isArray jobs \<longrightarrow> normalizeJobs jp di clks jobs = []) \<and>
   normalizeJobs jp di clks (JArr xs) =
     concat (map (\<lambda>(i, job). case normalizeJob_body jp di (clks i) job of
                                 Inl e \<Rightarrow> [] | Inr j \<Rightarrow> [j]) (enumerate 0 xs)) \<and>
   length (normalizeJobs jp di clks (JArr xs)) \<le> length xs \<and>
   JNull \<notin> set (normalizeJobs jp di clks (JArr xs)) \<and>
   normalizeJob_body jp di clk JNull = Inl TypeError \<and>
   normalizeJob jp di clk JNull = JNull \<and>
   normalizeJobs jp di clks (JArr (xs @ [JNull])) = normalizeJobs jp di clks (JArr xs) \<and>
   (job \<noteq> JNull \<and> job \<noteq> JUndefined \<longrightarrow>
      (\<exists>kvs. normalizeJob jp di clk job = JObj kvs) \<and>
      isArray (read_prop (normalizeJob jp di clk job) ''qualifications'')) \<and>
   (jp ''{not valid json'' = None \<and>
    get_prop job ''qualifications'' = Inr (JStr ''{not valid json'') \<longrightarrow>
      (\<exists>kvs. normalizeJob jp di clk job = JObj kvs) \<and>
      read_prop (normalizeJob jp di clk job) ''qualifications'' = JArr []) \<and>
   (get_prop job ''title'' = Inr JUndefined \<longrightarrow>
      (\<exists>kvs. normalizeJob jp di clk job = JObj kvs) \<and>
      read_prop (normalizeJob jp di clk job) ''title'' = JStr ''Untitled Position'')"
proof -
  have c1: "\<not> isArray jobs \<longrightarrow> normalizeJobs jp di clks jobs = []"
    by (cases jobs) (simp_all add: normalizeJobs_def)
  have c2: "normalizeJobs jp di clks (JArr ys) =
     concat (map (\<lambda>(i, job). case normalizeJob_body jp di (clks i) job of
                                 Inl e \<Rightarrow> [] | Inr j \<Rightarrow> [j]) (enumerate 0 ys))" for ys
    by (simp add: normalizeJobs_def normalizeJobs_enumerate)
  have c3: "length (normalizeJobs jp di clks (JArr xs)) \<le> length xs"
    unfolding c2
    using length_concat_le [of "\<lambda>i job. normalizeJob_body jp di (clks i) job" "enumerate 0 xs"]
    by simp
  have c4: "JNull \<notin> set (normalizeJobs jp di clks (JArr xs))"
    by (simp add: normalizeJobs_def)
  have c5: "normalizeJob_body jp di clk JNull = Inl TypeError"
    "normalizeJob jp di clk JNull = JNull"
    by (simp_all add: normalizeJob_def normalizeJob_body_def)
  have c6: "normalizeJobs jp di clks (JArr (xs @ [JNull])) = normalizeJobs jp di clks (JArr xs)"
    unfolding c2 by (simp add: enumerate_append_eq normalizeJob_body_def)
  have obj: "\<exists>kvs. normalizeJob jp di clk j = JObj kvs" if "j \<noteq> JNull" "j \<noteq> JUndefined" for j
    using that by (cases j) (simp_all add: normalizeJob_def normalizeJob_body_def Let_def)
  have c7: "job \<noteq> JNull \<and> job \<noteq> JUndefined \<longrightarrow>
      (\<exists>kvs. normalizeJob jp di clk job = JObj kvs) \<and>
      isArray (read_prop (normalizeJob jp di clk job) ''qualifications'')"
    using obj [of job] by (auto simp: qualifications_of Let_def)
  have c8: "jp ''{not valid json'' = None \<and>
    get_prop job ''qualifications'' = Inr (JStr ''{not valid json'') \<longrightarrow>
      (\<exists>kvs. normalizeJob jp di clk job = JObj kvs) \<and>
      read_prop (normalizeJob jp di clk job) ''qualifications'' = JArr []"
  proof (intro impI, elim conjE)
    assume p: "jp ''{not valid json'' = None"
      and q: "get_prop job ''qualifications'' = Inr (JStr ''{not valid json'')"
    from q have n: "job \<noteq> JNull" "job \<noteq> JUndefined" by auto
    from q have r: "read_prop job ''qualifications'' = JStr ''{not valid json''"
      by (simp add: read_prop_def)
    show "(\<exists>kvs. normalizeJob jp di clk job = JObj kvs) \<and>
      read_prop (normalizeJob jp di clk job) ''qualifications'' = JArr []"
      using obj [OF n] by (simp add: qualifications_of [OF n] r p)
  qed
  have c9: "get_prop job ''title'' = Inr JUndefined \<longrightarrow>
      (\<exists>kvs. normalizeJob jp di clk job = JObj kvs) \<and>
      read_prop (normalizeJob jp di clk job) ''title'' = JStr ''Untitled Position''"
  proof
    assume q: "get_prop job ''title'' = Inr JUndefined"
    then have n: "job \<noteq> JNull" "job \<noteq> JUndefined" by auto
    from q have r: "read_prop job ''title'' = JUndefined"
      by (simp add: read_prop_def)
    show "(\<exists>kvs. normalizeJob jp di clk job = JObj kvs) \<and>
      read_prop (normalizeJob jp di clk job) ''title'' = JStr ''Untitled Position''"
      using obj [OF n] by (simp add: fields_of(1) [OF n] r js_or_def)
  qed
  from c1 c2 [of xs] c3 c4 c5 c6 c7 c8 c9 show ?thesis by blast
qed

theorem normalizeJobs_total_witness:
  "\<not> isArray (JStr ''Service unavailable'') \<and>
   normalizeJobs parse_string_array known_date (\<lambda>i. example_clock) (JStr ''Service unavailable'') = [] \<and>
   raw_bad_qualifications \<noteq> JNull \<and> raw_bad_qualifications \<noteq> JUndefined \<and>
   parse_string_array ''{not valid json'' = None \<and>
   get_prop raw_bad_qualifications ''qualifications'' = Inr (JStr ''{not valid json'') \<and>
   read_prop (normalizeJob parse_string_array known_date example_clock raw_bad_qualifications)
     ''qualifications'' = JArr [] \<and>
   get_prop raw_bad_qualifications ''title'' = Inr JUndefined \<and>
   read_prop (normalizeJob parse_string_array known_date example_clock raw_bad_qualifications)
     ''title'' = JStr ''Untitled Position'' \<and>
   length (normalizeJobs parse_string_array known_date (\<lambda>i. example_clock)
             (JArr [raw_bad_qualifications, JNull])) \<le> 2"
proof -
  have h: "\<not> isArray (JStr ''Service unavailable'')"
    "raw_bad_qualifications \<noteq> JNull" "raw_bad_qualifications \<noteq> JUndefined"
    "parse_string_array ''{not valid json'' = None"
    "get_prop raw_bad_qualifications ''qualifications'' = Inr (JStr ''{not valid json'')"
    "get_prop raw_bad_qualifications ''title'' = Inr JUndefined"
    by (simp_all add: raw_bad_qualifications_def parse_string_array_def)
  note t = normalizeJobs_total [of "JStr ''Service unavailable''" parse_string_array known_date
      "\<lambda>i. example_clock" "[raw_bad_qualifications, JNull]" example_clock raw_bad_qualifications]
  have a: "normalizeJobs parse_string_array known_date (\<lambda>i. example_clock) (JStr ''Service unavailable'') = []"
    using t h by blast
  have b: "read_prop (normalizeJob parse_string_array known_date example_clock raw_bad_qualifications)
     ''qualifications'' = JArr []"
    using t h by blast
  have c: "read_prop (normalizeJob parse_string_array known_date example_clock raw_bad_qualifications)
     ''title'' = JStr ''Untitled Position''"
    using t h by blast
  have "length (normalizeJobs parse_string_array known_date (\<lambda>i. example_clock)
             (JArr [raw_bad_qualifications, JNull])) \<le> length [raw_bad_qualifications, JNull]"
    using t by blast
  then have d: "length (normalizeJobs parse_string_array known_date (\<lambda>i. example_clock)
             (JArr [raw_bad_qualifications, JNull])) \<le> 2"
    by simp
  from h a b c d show ?thesis by blast
qed

lemma raw_zero_salary_props:
  "raw_zero_salary \<noteq> JNull" "raw_zero_salary \<noteq> JUndefined"
  "read_prop raw_zero_salary ''salary_from'' = JNum 0"
  "read_prop raw_zero_salary ''salary_to'' = JNum 0"
  "read_prop raw_zero_salary ''number_of_opening'' = JNum 0"
  by (simp_all add: raw_zero_salary_def read_prop_def)

text \<open>
  Claim C8, as the code has it. For every raw record that normalizes (every value but
  \<^verbatim>\<open>null\<close> and \<^verbatim>\<open>undefined\<close>), \<open>salary_from\<close> and \<open>salary_to\<close> are the integer \<^verbatim>\<open>parseInt\<close> reads from the raw value when that is a number
  other than \<open>0\<close>, and \<^verbatim>\<open>null\<close> when \<^verbatim>\<open>parseInt\<close> gives NaN (a non-numeric input) or \<open>0\<close>;
  \<open>number_of_opening\<close> is that integer when it is a number other than \<open>0\<close>, and \<open>1\<close>
  otherwise. \<^verbatim>\<open>parseInt\<close> reads an integer (of the safe range) and its decimal numeral as
  that integer; a missing value, \<^verbatim>\<open>null\<close>, a boolean, an object and the empty string are
  not numeric.
\<close>

theorem numeric_coercion:
  "(job \<noteq> JNull \<and> job \<noteq> JUndefined \<longrightarrow>
      read_prop (normalizeJob jp di clk job) ''salary_from'' =
        (case parseInt (read_prop job ''salary_from'') of
           None \<Rightarrow> JNull | Some n \<Rightarrow> if n = 0 then JNull else JNum n) \<and>
      read_prop (normalizeJob jp di clk job) ''salary_to'' =
        (case parseInt (read_prop job ''salary_to'') of
           None \<Rightarrow> JNull | Some n \<Rightarrow> if n = 0 then JNull else JNum n) \<and>
      read_prop (normalizeJob jp di clk job) ''number_of_opening'' =
        (case parseInt (read_prop job ''number_of_opening'') of
           None \<Rightarrow> JNum 1 | Some n \<Rightarrow> if n = 0 then JNum 1 else JNum n)) \<and>
   (\<bar>n\<bar> < 2 ^ 53 \<longrightarrow> parseInt (JNum n) = Some n) \<and>
   (\<bar>n\<bar> < 2 ^ 53 \<longrightarrow> parseInt (JStr (dec_int n)) = Some n) \<and>
   parseInt JUndefined = None \<and>
   parseInt JNull = None \<and>
   parseInt (JBool b) = None \<and>
   parseInt (JObj kvs) = None \<and>
   parseInt (JStr []) = None"
proof -
  have o: "parseInt_or v d = (case parseInt v of None \<Rightarrow> d | Some n \<Rightarrow> if n = 0 then d else JNum n)"
    for v d
    by (simp add: parseInt_or_def js_or_def split: option.splits)
  have f: "job \<noteq> JNull \<and> job \<noteq> JUndefined \<longrightarrow>
      read_prop (normalizeJob jp di clk job) ''salary_from'' =
        (case parseInt (read_prop job ''salary_from'') of
           None \<Rightarrow> JNull | Some n \<Rightarrow> if n = 0 then JNull else JNum n) \<and>
      read_prop (normalizeJob jp di clk job) ''salary_to'' =
        (case parseInt (read_prop job ''salary_to'') of
           None \<Rightarrow> JNull | Some n \<Rightarrow> if n = 0 then JNull else JNum n) \<and>
      read_prop (normalizeJob jp di clk job) ''number_of_opening'' =
        (case parseInt (read_prop job ''number_of_opening'') of
           None \<Rightarrow> JNum 1 | Some n \<Rightarrow> if n = 0 then JNum 1 else JNum n)"
    by (simp add: fields_of o)
  have p: "\<bar>n\<bar> < 2 ^ 53 \<longrightarrow> parseInt (JNum n) = Some n"
    "\<bar>n\<bar> < 2 ^ 53 \<longrightarrow> parseInt (JStr (dec_int n)) = Some n"
    by (simp_all add: parseInt_values)
  show ?thesis
    by (intro conjI f p parseInt_values)
qed

theorem numeric_coercion_witness:
  "raw_zero_salary \<noteq> JNull \<and> raw_zero_salary \<noteq> JUndefined \<and>
   read_prop (normalizeJob parse_string_array known_date example_clock raw_zero_salary)
     ''salary_from'' = JNull \<and>
   read_prop (normalizeJob parse_string_array known_date example_clock raw_zero_salary)
     ''number_of_opening'' = JNum 1 \<and>
   \<bar>50000 :: int\<bar> < 2 ^ 53 \<and>
   parseInt (JNum 50000) = Some 50000 \<and>
   parseInt (JStr (dec_int 50000)) = Some 50000"
proof -
  have b: "\<bar>50000 :: int\<bar> < 2 ^ 53" by simp
  have z: "parseInt (JNum 0) = Some 0"
    using numeric_coercion [of raw_zero_salary parse_string_array known_date example_clock 0]
    by simp
  show ?thesis
    using raw_zero_salary_props b z
      numeric_coercion [of raw_zero_salary parse_string_array known_date example_clock 50000]
    by simp
qed

text \<open>
  Claim C8 as stated fails at the numeric input \<open>0\<close>: the raw \<open>salary_from = 0\<close> is not
  kept as \<open>0\<close> but becomes \<^verbatim>\<open>null\<close>, and the raw \<open>number_of_opening = 0\<close> becomes \<open>1\<close>.
\<close>

theorem numeric_coercion_counterexample:
  "read_prop raw_zero_salary ''salary_from'' = JNum 0 \<and>
   read_prop (normalizeJob parse_string_array known_date example_clock raw_zero_salary)
     ''salary_from'' = JNull \<and>
   read_prop raw_zero_salary ''number_of_opening'' = JNum 0 \<and>
   read_prop (normalizeJob parse_string_array known_date example_clock raw_zero_salary)
     ''number_of_opening'' = JNum 1"
  by (simp add: raw_zero_salary_props fields_of parseInt_or_def parseInt_values js_or_def)

end
